theory Spec2Isabelle
  imports Main "HOL-Library.Word"
begin

unbundle bit_operations_syntax

section \<open>Ruby values and errors\<close>

text \<open>
  The extension receives Ruby objects (\<^verbatim>\<open>VALUE\<close>). Only the shapes that
  \<^verbatim>\<open>posix_serialport_impl.c\<close> distinguishes are modelled: \<^verbatim>\<open>nil\<close>, a
  Fixnum, a String, a Hash (looked up with the six symbol keys of the parameter hash),
  the receiver itself, and any other object.
\<close>

datatype hkey = sBaud | sDataBits | sStopBits | sParity | sFlowControl | sReadTimeout

datatype VALUE =
    Qnil
  | Fixnum int
  | String string
  | Hash "(hkey \<times> VALUE) list"
  | Self
  | Other

text \<open>
  Every \<^verbatim>\<open>rb_raise\<close> and \<open>rb_sys_fail\<close> of the source is a value of
  \<open>error\<close>. \<open>OutOfBounds i\<close> is not a Ruby exception: it marks a read of
  \<^verbatim>\<open>ports[i]\<close> past the end of the array (undefined behaviour in C).
\<close>

datatype error =
    ArgError string
  | TypeError string
  | RangeError
  | IOError string
  | SysFail string
  | OutOfBounds nat

text \<open>\<^verbatim>\<open>Check_Type(v, T_FIXNUM)\<close> followed by \<^verbatim>\<open>FIX2INT(v)\<close>: a TypeError for
  anything but a Fixnum, and the RangeError of \<^verbatim>\<open>rb_fix2int\<close> when the Fixnum does
  not fit a C \<^verbatim>\<open>int\<close> (possible only where \<^verbatim>\<open>long\<close> is wider than \<^verbatim>\<open>int\<close>).\<close>

definition FIX2INT :: "int \<Rightarrow> error + int" where
  "FIX2INT n = (if - (2 ^ 31) \<le> n \<and> n < 2 ^ 31 then Inr n else Inl RangeError)"

definition Check_Type_FIXNUM :: "VALUE \<Rightarrow> error + int" where
  "Check_Type_FIXNUM v =
     (case v of Fixnum n \<Rightarrow> Inr n | _ \<Rightarrow> Inl (TypeError ''wrong argument type''))"

definition Check_Type_FIX2INT :: "VALUE \<Rightarrow> error + int" where
  "Check_Type_FIX2INT v =
     (case Check_Type_FIXNUM v of Inl e \<Rightarrow> Inl e | Inr n \<Rightarrow> FIX2INT n)"

definition NIL_P :: "VALUE \<Rightarrow> bool" where
  "NIL_P v = (v = Qnil)"

definition rb_hash_aref :: "VALUE \<Rightarrow> hkey \<Rightarrow> VALUE" where
  "rb_hash_aref h k =
     (case h of Hash kvs \<Rightarrow> (case map_of kvs k of Some v \<Rightarrow> v | None \<Rightarrow> Qnil) | _ \<Rightarrow> Qnil)"

definition is_T_HASH :: "VALUE \<Rightarrow> bool" where
  "is_T_HASH v = (case v of Hash _ \<Rightarrow> True | _ \<Rightarrow> False)"

section \<open>The build: operating system and header constants\<close>

datatype os =
    OS_LINUX | OS_CYGWIN | OS_FREEBSD | OS_NETBSD | OS_OPENBSD | OS_DARWIN
  | OS_SOLARIS | OS_AIX | OS_IRIX

type_synonym tcflag = "32 word"
type_synonym speed = "32 word"
type_synonym cc = "8 word"

text \<open>
  The constants of \<^verbatim>\<open><termios.h>\<close>, \<^verbatim>\<open><linux/serial.h>\<close> and
  \<^verbatim>\<open>serialport.h\<close> are not part of the source file; the build is a parameter
  that supplies them. A macro the source tests with \<^verbatim>\<open>#ifdef\<close> is an option:
  \<open>None\<close> when the platform does not define it.
\<close>

record build =
  os :: os
  CSIZE :: tcflag
  CS5 :: tcflag
  CS6 :: tcflag
  CS7 :: tcflag
  CS8 :: tcflag
  CSTOPB :: tcflag
  PARENB :: tcflag
  PARODD :: tcflag
  CRTSCTS :: "tcflag option"
  IXON :: tcflag
  IXOFF :: tcflag
  IXANY :: tcflag
  B50 :: speed
  B75 :: speed
  B110 :: speed
  B134 :: speed
  B150 :: speed
  B200 :: speed
  B300 :: speed
  B600 :: speed
  B1200 :: speed
  B1800 :: speed
  B2400 :: speed
  B4800 :: speed
  B9600 :: speed
  B19200 :: speed
  B38400 :: speed
  B57600 :: "speed option"
  B76800 :: "speed option"
  B115200 :: "speed option"
  B230400 :: "speed option"
  ASYNC_SPD_MASK :: int
  ASYNC_SPD_CUST :: int
  NONE :: int
  EVEN :: int
  ODD :: int
  SOFT :: int
  HARD :: int

section \<open>Opening a port: the port selector\<close>

text \<open>The table \<^verbatim>\<open>ports[]\<close> of \<^verbatim>\<open>sp_create_impl\<close>, chosen by the platform macro.\<close>

definition ports :: "os \<Rightarrow> string list" where
  "ports p =
     (if p = OS_LINUX \<or> p = OS_CYGWIN then
        [''/dev/ttyS0'', ''/dev/ttyS1'', ''/dev/ttyS2'', ''/dev/ttyS3'',
         ''/dev/ttyS4'', ''/dev/ttyS5'', ''/dev/ttyS6'', ''/dev/ttyS7'']
      else if p = OS_FREEBSD \<or> p = OS_NETBSD \<or> p = OS_OPENBSD \<or> p = OS_DARWIN then
        [''/dev/cuaa0'', ''/dev/cuaa1'', ''/dev/cuaa2'', ''/dev/cuaa3'',
         ''/dev/cuaa4'', ''/dev/cuaa5'', ''/dev/cuaa6'', ''/dev/cuaa7'']
      else if p = OS_SOLARIS then
        [''/dev/ttya'', ''/dev/ttyb'', ''/dev/ttyc'', ''/dev/ttyd'',
         ''/dev/ttye'', ''/dev/ttyf'', ''/dev/ttyg'', ''/dev/ttyh'']
      else if p = OS_AIX then
        [''/dev/tty0'', ''/dev/tty1'', ''/dev/tty2'', ''/dev/tty3'',
         ''/dev/tty4'', ''/dev/tty5'', ''/dev/tty6'', ''/dev/tty7'']
      else
        [''/dev/ttyf1'', ''/dev/ttyf2'', ''/dev/ttyf3'', ''/dev/ttyf4'',
         ''/dev/ttyf5'', ''/dev/ttyf6'', ''/dev/ttyf7'', ''/dev/ttyf8''])"

text \<open>
  The \<^verbatim>\<open>switch(TYPE(_port))\<close> block of \<^verbatim>\<open>sp_create_impl\<close>, which computes the
  device path \<^verbatim>\<open>port\<close> that is then opened. The bound of the guard is
  \<^verbatim>\<open>sizeof(ports) / sizeof(ports[0])\<close>, the number of entries; the comparison with
  it is only reached for a non-negative \<^verbatim>\<open>num_port\<close>, so the conversion to
  \<^verbatim>\<open>size_t\<close> keeps its value. The array read \<^verbatim>\<open>ports[num_port]\<close> is written
  out: an index past the last entry is \<open>OutOfBounds\<close>.
\<close>

definition sp_create_impl_port :: "os \<Rightarrow> VALUE \<Rightarrow> error + string" where
  "sp_create_impl_port p v =
     (case v of
        Fixnum n \<Rightarrow>
          (case FIX2INT n of
             Inl e \<Rightarrow> Inl e
           | Inr num_port \<Rightarrow>
               if num_port < 0 \<or> num_port > int (length (ports p))
               then Inl (ArgError ''illegal port number'')
               else if nat num_port < length (ports p)
                    then Inr (ports p ! nat num_port)
                    else Inl (OutOfBounds (nat num_port)))
      | String s \<Rightarrow> Inr s
      | _ \<Rightarrow> Inl (TypeError ''wrong argument type''))"

section \<open>Kernel state of an open port\<close>

text \<open>
  \<^verbatim>\<open>struct termios\<close>: the four flag words, the two entries of \<^verbatim>\<open>c_cc\<close> that
  the source touches (\<^verbatim>\<open>c_cc[VTIME]\<close> and \<^verbatim>\<open>c_cc[VMIN]\<close>, each an
  \<^verbatim>\<open>unsigned char\<close>), and the input and output speed, which \<^verbatim>\<open>cfsetispeed\<close>,
  \<^verbatim>\<open>cfsetospeed\<close> and \<^verbatim>\<open>cfgetospeed\<close> write and read.
\<close>

record termios =
  c_iflag :: tcflag
  c_oflag :: tcflag
  c_cflag :: tcflag
  c_lflag :: tcflag
  c_cc_VTIME :: cc
  c_cc_VMIN :: cc
  c_ispeed :: speed
  c_ospeed :: speed

definition cfsetispeed :: "speed \<Rightarrow> termios \<Rightarrow> termios" where
  "cfsetispeed b t = t\<lparr>c_ispeed := b\<rparr>"

definition cfsetospeed :: "speed \<Rightarrow> termios \<Rightarrow> termios" where
  "cfsetospeed b t = t\<lparr>c_ospeed := b\<rparr>"

definition cfgetospeed :: "termios \<Rightarrow> speed" where
  "cfgetospeed t = c_ospeed t"

text \<open>The three fields of \<^verbatim>\<open>struct serial_struct\<close> (Linux) that the source uses,
  each a C \<^verbatim>\<open>int\<close>.\<close>

record serial_struct =
  flags :: int
  custom_divisor :: int
  baud_base :: int

datatype syscall =
    Tcgetattr
  | Tcsetattr termios
  | Ioctl_TIOCGSERIAL
  | Ioctl_TIOCSSERIAL serial_struct
  | Ioctl_IOSSIOSPEED int

text \<open>
  An open serial port as the extension sees it: the terminal attributes and the serial
  information the kernel holds for the descriptor, the hidden instance variable
  \<^verbatim>\<open>custom_baud\<close> of the Ruby object (\<open>Qnil\<close> until it is first set), which
  system calls fail on this descriptor, and the system calls made so far. A successful
  \<^verbatim>\<open>tcsetattr\<close> or \<^verbatim>\<open>TIOCSSERIAL\<close> stores what it is given.
\<close>

record port =
  kern_termios :: termios
  kern_serial :: serial_struct
  custom_baud :: VALUE
  tcgetattr_fails :: bool
  tcsetattr_fails :: bool
  tiocgserial_fails :: bool
  tiocsserial_fails :: bool
  iossiospeed_fails :: bool
  trace :: "syscall list"

definition logged :: "syscall \<Rightarrow> port \<Rightarrow> port" where
  "logged c s = s\<lparr>trace := trace s @ [c]\<rparr>"

definition tcgetattr :: "port \<Rightarrow> termios option \<times> port" where
  "tcgetattr s =
     (if tcgetattr_fails s then None else Some (kern_termios s), logged Tcgetattr s)"

definition tcsetattr :: "termios \<Rightarrow> port \<Rightarrow> bool \<times> port" where
  "tcsetattr t s =
     (if tcsetattr_fails s then (False, logged (Tcsetattr t) s)
      else (True, logged (Tcsetattr t) (s\<lparr>kern_termios := t\<rparr>)))"

definition ioctl_TIOCGSERIAL :: "port \<Rightarrow> serial_struct option \<times> port" where
  "ioctl_TIOCGSERIAL s =
     (if tiocgserial_fails s then None else Some (kern_serial s), logged Ioctl_TIOCGSERIAL s)"

definition ioctl_TIOCSSERIAL :: "serial_struct \<Rightarrow> port \<Rightarrow> bool \<times> port" where
  "ioctl_TIOCSSERIAL si s =
     (if tiocsserial_fails s then (False, logged (Ioctl_TIOCSSERIAL si) s)
      else (True, logged (Ioctl_TIOCSSERIAL si) (s\<lparr>kern_serial := si\<rparr>)))"

definition ioctl_IOSSIOSPEED :: "int \<Rightarrow> port \<Rightarrow> bool \<times> port" where
  "ioctl_IOSSIOSPEED b s = (\<not> iossiospeed_fails s, logged (Ioctl_IOSSIOSPEED b) s)"

text \<open>C's integer division truncates towards zero.\<close>

definition c_div :: "int \<Rightarrow> int \<Rightarrow> int" where
  "c_div a b = sgn a * sgn b * (\<bar>a\<bar> div \<bar>b\<bar>)"

text \<open>The sum of two C \<^verbatim>\<open>int\<close>s as the machine computes it: a sum outside the 32-bit
  range wraps around in two's complement (in ISO C the overflow is undefined).\<close>

definition c_int_add :: "int \<Rightarrow> int \<Rightarrow> int" where
  "c_int_add a b = (a + b + 2 ^ 31) mod 2 ^ 32 - 2 ^ 31"

section \<open>Custom baud rates\<close>

subsection \<open>Linux: the divisor in \<^verbatim>\<open>serial_struct\<close>\<close>

definition set_custom_baud_rate_linux :: "build \<Rightarrow> int \<Rightarrow> port \<Rightarrow> (error + int) \<times> port" where
  "set_custom_baud_rate_linux K baud s =
     (if baud \<le> 0 then (Inl (ArgError ''invalid baud rate''), s)
      else
        (case ioctl_TIOCGSERIAL s of
           (None, s1) \<Rightarrow>
             (Inl (ArgError ''unable to execute TIOCGSERIAL ioctl for custom baud''), s1)
         | (Some serial_info, s1) \<Rightarrow>
             if baud > baud_base serial_info
             then (Inl (ArgError ''custom baud rate is too high''), s1)
             else
               (let divisor = c_div (baud_base serial_info) baud;
                    serial_info' = serial_info
                      \<lparr>flags := (flags serial_info AND NOT (ASYNC_SPD_MASK K))
                                   OR ASYNC_SPD_CUST K,
                       custom_divisor := divisor\<rparr>
                in (case ioctl_TIOCSSERIAL serial_info' s1 of
                      (False, s2) \<Rightarrow> (Inl (ArgError ''unable to set custom baud rate''), s2)
                    | (True, s2) \<Rightarrow> (Inr 0, s2)))))"

definition clear_custom_baud_rate_linux :: "build \<Rightarrow> port \<Rightarrow> (error + int) \<times> port" where
  "clear_custom_baud_rate_linux K s =
     (case ioctl_TIOCGSERIAL s of
        (None, s1) \<Rightarrow>
          (Inl (ArgError ''unable to execute TIOCGSERIAL ioctl for custom baud''), s1)
      | (Some serial_info, s1) \<Rightarrow>
          if flags serial_info AND ASYNC_SPD_CUST K = 0 \<and> custom_divisor serial_info = 0
          then (Inr 0, s1)
          else
            (let serial_info' = serial_info
                   \<lparr>flags := flags serial_info AND NOT (ASYNC_SPD_CUST K),
                    custom_divisor := 0\<rparr>
             in (case ioctl_TIOCSSERIAL serial_info' s1 of
                   (False, s2) \<Rightarrow> (Inl (ArgError ''unable to set custom baud rate''), s2)
                 | (True, s2) \<Rightarrow> (Inr 0, s2))))"

definition get_custom_baud_rate_linux :: "build \<Rightarrow> port \<Rightarrow> int \<times> port" where
  "get_custom_baud_rate_linux K s =
     (case ioctl_TIOCGSERIAL s of
        (None, s1) \<Rightarrow> (0, s1)
      | (Some serial_info, s1) \<Rightarrow>
          if flags serial_info AND ASYNC_SPD_CUST K = 0 then (0, s1)
          else if custom_divisor serial_info > 0
          then (c_div (baud_base serial_info) (custom_divisor serial_info), s1)
          else (0, s1))"

subsection \<open>Darwin: \<^verbatim>\<open>IOSSIOSPEED\<close> and the cached instance variable\<close>

definition set_custom_baud_rate_darwin :: "int \<Rightarrow> port \<Rightarrow> (error + int) \<times> port" where
  "set_custom_baud_rate_darwin baud s =
     (case ioctl_IOSSIOSPEED baud s of
        (False, s1) \<Rightarrow> (Inl (ArgError ''unable to set custom baud rate''), s1)
      | (True, s1) \<Rightarrow> (Inr 0, s1\<lparr>custom_baud := Fixnum baud\<rparr>))"

definition clear_custom_baud_rate_darwin :: "build \<Rightarrow> termios \<Rightarrow> port \<Rightarrow> termios \<times> port" where
  "clear_custom_baud_rate_darwin K serial_info s =
     (cfsetospeed (B9600 K) (cfsetispeed (B9600 K) serial_info),
      s\<lparr>custom_baud := Fixnum 0\<rparr>)"

definition get_custom_baud_rate_darwin :: "port \<Rightarrow> error + int" where
  "get_custom_baud_rate_darwin s =
     (case custom_baud s of Fixnum n \<Rightarrow> FIX2INT n | _ \<Rightarrow> Inr 0)"

section \<open>Configure: \<^verbatim>\<open>sp_set_modem_params_impl\<close>\<close>

text \<open>The \<^verbatim>\<open>switch\<close> on the requested rate. It yields the speed constant and the
  value of \<^verbatim>\<open>custom_baud_rate\<close>, which only the default case assigns.\<close>

definition data_rate_switch :: "build \<Rightarrow> int \<Rightarrow> int \<Rightarrow> error + (speed \<times> int)" where
  "data_rate_switch K r custom_baud_rate =
     (if r = 50 then Inr (B50 K, custom_baud_rate)
      else if r = 75 then Inr (B75 K, custom_baud_rate)
      else if r = 110 then Inr (B110 K, custom_baud_rate)
      else if r = 134 then Inr (B134 K, custom_baud_rate)
      else if r = 150 then Inr (B150 K, custom_baud_rate)
      else if r = 200 then Inr (B200 K, custom_baud_rate)
      else if r = 300 then Inr (B300 K, custom_baud_rate)
      else if r = 600 then Inr (B600 K, custom_baud_rate)
      else if r = 1200 then Inr (B1200 K, custom_baud_rate)
      else if r = 1800 then Inr (B1800 K, custom_baud_rate)
      else if r = 2400 then Inr (B2400 K, custom_baud_rate)
      else if r = 4800 then Inr (B4800 K, custom_baud_rate)
      else if r = 9600 then Inr (B9600 K, custom_baud_rate)
      else if r = 19200 then Inr (B19200 K, custom_baud_rate)
      else if r = 38400 then Inr (B38400 K, custom_baud_rate)
      else if r = 57600 \<and> B57600 K \<noteq> None then Inr (the (B57600 K), custom_baud_rate)
      else if r = 76800 \<and> B76800 K \<noteq> None then Inr (the (B76800 K), custom_baud_rate)
      else if r = 115200 \<and> B115200 K \<noteq> None then Inr (the (B115200 K), custom_baud_rate)
      else if r = 230400 \<and> B230400 K \<noteq> None then Inr (the (B230400 K), custom_baud_rate)
      else if os K = OS_LINUX \<or> os K = OS_DARWIN then
        (if r \<le> 0 then Inl (ArgError ''invalid baud rate'')
         else if r > 24000000 then Inl (ArgError ''baud rate too high'')
         else Inr (B38400 K, r))
      else Inl (ArgError ''unknown baud rate''))"

text \<open>From the test \<^verbatim>\<open>NIL_P(_data_rate)\<close> to the label \<^verbatim>\<open>SetDataBits\<close>. On Linux
  the custom rate is cleared in the kernel here, before the later fields are looked at.\<close>

definition SetDataRate ::
  "build \<Rightarrow> VALUE \<Rightarrow> int \<Rightarrow> termios \<Rightarrow> port \<Rightarrow> (error + (int \<times> termios)) \<times> port" where
  "SetDataRate K v_data_rate custom_baud_rate params s =
     (if NIL_P v_data_rate then (Inr (custom_baud_rate, params), s)
      else
        (case Check_Type_FIX2INT v_data_rate of
           Inl e \<Rightarrow> (Inl e, s)
         | Inr r \<Rightarrow>
             if r \<le> 0 then (Inl (ArgError ''invalid baud rate''), s)
             else
               (case data_rate_switch K r custom_baud_rate of
                  Inl e \<Rightarrow> (Inl e, s)
                | Inr (data_rate, custom_baud_rate') \<Rightarrow>
                    (case (if os K = OS_LINUX then clear_custom_baud_rate_linux K s
                           else (Inr 0, s)) of
                       (Inl e, s1) \<Rightarrow> (Inl e, s1)
                     | (Inr _, s1) \<Rightarrow>
                         (Inr (custom_baud_rate',
                               cfsetospeed data_rate (cfsetispeed data_rate params)), s1)))))"

definition SetDataBits :: "build \<Rightarrow> VALUE \<Rightarrow> termios \<Rightarrow> error + termios" where
  "SetDataBits K v_data_bits params =
     (if NIL_P v_data_bits then Inr params
      else
        (case Check_Type_FIX2INT v_data_bits of
           Inl e \<Rightarrow> Inl e
         | Inr n \<Rightarrow>
             (case (if n = 5 then Some (CS5 K) else if n = 6 then Some (CS6 K)
                    else if n = 7 then Some (CS7 K) else if n = 8 then Some (CS8 K)
                    else None) of
                None \<Rightarrow> Inl (ArgError ''unknown character size'')
              | Some data_bits \<Rightarrow>
                  Inr (params\<lparr>c_cflag := (c_cflag params AND NOT (CSIZE K)) OR data_bits\<rparr>))))"

definition SetStopBits :: "build \<Rightarrow> VALUE \<Rightarrow> termios \<Rightarrow> error + termios" where
  "SetStopBits K v_stop_bits params =
     (if NIL_P v_stop_bits then Inr params
      else
        (case Check_Type_FIX2INT v_stop_bits of
           Inl e \<Rightarrow> Inl e
         | Inr n \<Rightarrow>
             if n = 1 then Inr (params\<lparr>c_cflag := c_cflag params AND NOT (CSTOPB K)\<rparr>)
             else if n = 2 then Inr (params\<lparr>c_cflag := c_cflag params OR CSTOPB K\<rparr>)
             else Inl (ArgError ''unknown number of stop bits'')))"

definition SetParity :: "build \<Rightarrow> VALUE \<Rightarrow> termios \<Rightarrow> error + termios" where
  "SetParity K v_parity params =
     (if NIL_P v_parity then Inr params
      else
        (case Check_Type_FIX2INT v_parity of
           Inl e \<Rightarrow> Inl e
         | Inr n \<Rightarrow>
             if n = EVEN K
             then Inr (params\<lparr>c_cflag := (c_cflag params OR PARENB K) AND NOT (PARODD K)\<rparr>)
             else if n = ODD K
             then Inr (params\<lparr>c_cflag := (c_cflag params OR PARENB K) OR PARODD K\<rparr>)
             else if n = NONE K
             then Inr (params\<lparr>c_cflag := c_cflag params AND NOT (PARENB K)\<rparr>)
             else Inl (ArgError ''unknown parity'')))"

text \<open>The flow-control block, which \<^verbatim>\<open>sp_set_modem_params_impl\<close> and
  \<^verbatim>\<open>sp_set_flow_control_impl\<close> both contain, from the validity test on. Without
  \<^verbatim>\<open>HAVE_FLOWCONTROL_HARD\<close> the branch of the \<^verbatim>\<open>HARD\<close> bit raises and there is
  no other branch.\<close>

definition flow_control_block :: "build \<Rightarrow> int \<Rightarrow> termios \<Rightarrow> error + termios" where
  "flow_control_block K flow_control params =
     (if flow_control \<noteq> NONE K \<and> flow_control \<noteq> SOFT K \<and> flow_control \<noteq> HARD K
         \<and> flow_control \<noteq> (HARD K OR SOFT K)
      then Inl (ArgError ''invalid flow control'')
      else
        (case (case CRTSCTS K of
                 Some crtscts \<Rightarrow>
                   if flow_control AND HARD K \<noteq> 0
                   then Inr (params\<lparr>c_cflag := c_cflag params OR crtscts\<rparr>)
                   else Inr (params\<lparr>c_cflag := c_cflag params AND NOT crtscts\<rparr>)
               | None \<Rightarrow>
                   if flow_control AND HARD K \<noteq> 0
                   then Inl (IOError ''Hardware flow control not supported'')
                   else Inr params) of
           Inl e \<Rightarrow> Inl e
         | Inr params1 \<Rightarrow>
             if flow_control AND SOFT K \<noteq> 0
             then Inr (params1\<lparr>c_iflag := c_iflag params1 OR (IXON K OR IXOFF K OR IXANY K)\<rparr>)
             else Inr (params1\<lparr>c_iflag :=
                         c_iflag params1 AND NOT (IXON K OR IXOFF K OR IXANY K)\<rparr>)))"

definition SetFlowControl :: "build \<Rightarrow> VALUE \<Rightarrow> termios \<Rightarrow> error + termios" where
  "SetFlowControl K v_flow_control params =
     (if NIL_P v_flow_control then Inr params
      else
        (case Check_Type_FIX2INT v_flow_control of
           Inl e \<Rightarrow> Inl e
         | Inr flow_control \<Rightarrow> flow_control_block K flow_control params))"

text \<open>The read-timeout block, shared with \<^verbatim>\<open>sp_set_read_timeout_impl\<close>. The
  assignment to \<^verbatim>\<open>c_cc[VTIME]\<close> converts the \<^verbatim>\<open>int\<close> quotient to
  \<^verbatim>\<open>unsigned char\<close>, which keeps its low eight bits. The sum
  \<^verbatim>\<open>read_timeout + 50\<close> is an \<^verbatim>\<open>int\<close> sum and wraps around for a timeout above
  \<^verbatim>\<open>INT_MAX - 50\<close>; the quotient is then negative and C's division truncates it
  towards zero.\<close>

definition read_timeout_block :: "int \<Rightarrow> termios \<Rightarrow> termios" where
  "read_timeout_block read_timeout params =
     (if read_timeout < 0 then params\<lparr>c_cc_VTIME := 0, c_cc_VMIN := 0\<rparr>
      else if read_timeout = 0 then params\<lparr>c_cc_VTIME := 0, c_cc_VMIN := 1\<rparr>
      else params\<lparr>c_cc_VTIME := word_of_int (c_div (c_int_add read_timeout 50) 100),
                  c_cc_VMIN := 0\<rparr>)"

definition SetReadTimeout :: "VALUE \<Rightarrow> termios \<Rightarrow> error + termios" where
  "SetReadTimeout v_read_timeout params =
     (if NIL_P v_read_timeout then Inr params
      else
        (case Check_Type_FIX2INT v_read_timeout of
           Inl e \<Rightarrow> Inl e
         | Inr read_timeout \<Rightarrow> Inr (read_timeout_block read_timeout params)))"

text \<open>The values the six fields are given: from the hash, or from the positional
  arguments with their defaults. The default of the parity reads \<^verbatim>\<open>params\<close> as the
  data-bits and stop-bits blocks have left it.\<close>

definition use_hash :: "VALUE list \<Rightarrow> bool" where
  "use_hash argv = (length argv = 1 \<and> is_T_HASH (argv ! 0))"

definition arg_data_rate :: "VALUE list \<Rightarrow> VALUE" where
  "arg_data_rate argv = (if use_hash argv then rb_hash_aref (argv ! 0) sBaud else argv ! 0)"

definition arg_data_bits :: "VALUE list \<Rightarrow> VALUE" where
  "arg_data_bits argv =
     (if use_hash argv then rb_hash_aref (argv ! 0) sDataBits
      else if length argv \<ge> 2 then argv ! 1 else Fixnum 8)"

definition arg_stop_bits :: "VALUE list \<Rightarrow> VALUE" where
  "arg_stop_bits argv =
     (if use_hash argv then rb_hash_aref (argv ! 0) sStopBits
      else if length argv \<ge> 3 then argv ! 2 else Fixnum 1)"

definition arg_parity :: "build \<Rightarrow> VALUE list \<Rightarrow> termios \<Rightarrow> VALUE" where
  "arg_parity K argv params =
     (if use_hash argv then rb_hash_aref (argv ! 0) sParity
      else if length argv \<ge> 4 then argv ! 3
      else if c_cflag params AND CSIZE K = CS8 K then Fixnum (NONE K) else Fixnum (EVEN K))"

definition arg_flow_control :: "VALUE list \<Rightarrow> VALUE" where
  "arg_flow_control argv =
     (if use_hash argv then rb_hash_aref (argv ! 0) sFlowControl
      else if length argv \<ge> 5 then argv ! 4 else Qnil)"

definition arg_read_timeout :: "VALUE list \<Rightarrow> VALUE" where
  "arg_read_timeout argv =
     (if use_hash argv then rb_hash_aref (argv ! 0) sReadTimeout
      else if length argv \<ge> 6 then argv ! 5 else Qnil)"

text \<open>From the label \<^verbatim>\<open>SetDataBits\<close> to the label \<^verbatim>\<open>SaveSettings\<close>: the five
  blocks that only change the local copy \<^verbatim>\<open>params\<close>.\<close>

definition SetFields :: "build \<Rightarrow> VALUE list \<Rightarrow> termios \<Rightarrow> error + termios" where
  "SetFields K argv params =
     (case SetDataBits K (arg_data_bits argv) params of
        Inl e \<Rightarrow> Inl e
      | Inr p1 \<Rightarrow>
     (case SetStopBits K (arg_stop_bits argv) p1 of
        Inl e \<Rightarrow> Inl e
      | Inr p2 \<Rightarrow>
     (case SetParity K (arg_parity K argv p2) p2 of
        Inl e \<Rightarrow> Inl e
      | Inr p3 \<Rightarrow>
     (case SetFlowControl K (arg_flow_control argv) p3 of
        Inl e \<Rightarrow> Inl e
      | Inr p4 \<Rightarrow> SetReadTimeout (arg_read_timeout argv) p4))))"

text \<open>After \<^verbatim>\<open>tcsetattr\<close>: a custom rate that was recorded is applied.\<close>

definition apply_custom_baud_rate :: "build \<Rightarrow> int \<Rightarrow> port \<Rightarrow> (error + int) \<times> port" where
  "apply_custom_baud_rate K custom_baud_rate s =
     (if os K = OS_DARWIN then
        (if custom_baud_rate \<noteq> 0 then set_custom_baud_rate_darwin custom_baud_rate s
         else (Inr 0, s))
      else if os K = OS_LINUX then
        (if custom_baud_rate \<noteq> 0 then set_custom_baud_rate_linux K custom_baud_rate s
         else (Inr 0, s))
      else (Inr 0, s))"

text \<open>On Darwin the cached rate is read and cleared right after \<^verbatim>\<open>tcgetattr\<close>.\<close>

definition darwin_prologue ::
  "build \<Rightarrow> termios \<Rightarrow> port \<Rightarrow> (error + (int \<times> termios)) \<times> port" where
  "darwin_prologue K params s =
     (if os K = OS_DARWIN then
        (case get_custom_baud_rate_darwin s of
           Inl e \<Rightarrow> (Inl e, s)
         | Inr custom_baud_rate \<Rightarrow>
             (case clear_custom_baud_rate_darwin K params s of
                (params1, s1) \<Rightarrow> (Inr (custom_baud_rate, params1), s1)))
      else (Inr (0, params), s))"

definition sp_set_modem_params_impl ::
  "build \<Rightarrow> VALUE list \<Rightarrow> port \<Rightarrow> (error + VALUE) \<times> port" where
  "sp_set_modem_params_impl K argv self =
     (if length argv = 0 then (Inr Self, self)
      else
        (case tcgetattr self of
           (None, s1) \<Rightarrow> (Inl (SysFail ''tcgetattr''), s1)
         | (Some params, s1) \<Rightarrow>
        (case darwin_prologue K params s1 of
           (Inl e, s2) \<Rightarrow> (Inl e, s2)
         | (Inr (custom0, params1), s2) \<Rightarrow>
        (case SetDataRate K (arg_data_rate argv) custom0 params1 s2 of
           (Inl e, s3) \<Rightarrow> (Inl e, s3)
         | (Inr (custom_baud_rate, params2), s3) \<Rightarrow>
        (case SetFields K argv params2 of
           Inl e \<Rightarrow> (Inl e, s3)
         | Inr params3 \<Rightarrow>
        (case tcsetattr params3 s3 of
           (False, s4) \<Rightarrow> (Inl (SysFail ''tcsetattr''), s4)
         | (True, s4) \<Rightarrow>
        (case apply_custom_baud_rate K custom_baud_rate s4 of
           (Inl e, s5) \<Rightarrow> (Inl e, s5)
         | (Inr _, s5) \<Rightarrow> (Inr (argv ! 0), s5))))))))"

section \<open>Inspect: \<^verbatim>\<open>get_modem_params_impl\<close>\<close>

text \<open>\<^verbatim>\<open>struct modem_params\<close>, declared in \<^verbatim>\<open>serialport.h\<close>: the six fields the
  source assigns.\<close>

record modem_params =
  data_rate :: int
  data_bits :: int
  stop_bits :: int
  parity :: int
  flow_control :: int
  read_timeout :: int

text \<open>The \<^verbatim>\<open>switch\<close> on \<^verbatim>\<open>cfgetospeed\<close>; \<open>None\<close> is its default case.\<close>

definition ospeed_switch :: "build \<Rightarrow> speed \<Rightarrow> int option" where
  "ospeed_switch K b =
     (if b = B50 K then Some 50
      else if b = B75 K then Some 75
      else if b = B110 K then Some 110
      else if b = B134 K then Some 134
      else if b = B150 K then Some 150
      else if b = B200 K then Some 200
      else if b = B300 K then Some 300
      else if b = B600 K then Some 600
      else if b = B1200 K then Some 1200
      else if b = B1800 K then Some 1800
      else if b = B2400 K then Some 2400
      else if b = B4800 K then Some 4800
      else if b = B9600 K then Some 9600
      else if b = B19200 K then Some 19200
      else if b = B38400 K then Some 38400
      else if B57600 K = Some b then Some 57600
      else if B76800 K = Some b then Some 76800
      else if B115200 K = Some b then Some 115200
      else if B230400 K = Some b then Some 230400
      else None)"

definition mp_data_bits :: "build \<Rightarrow> termios \<Rightarrow> int" where
  "mp_data_bits K params =
     (if c_cflag params AND CSIZE K = CS5 K then 5
      else if c_cflag params AND CSIZE K = CS6 K then 6
      else if c_cflag params AND CSIZE K = CS7 K then 7
      else if c_cflag params AND CSIZE K = CS8 K then 8
      else 0)"

definition mp_stop_bits :: "build \<Rightarrow> termios \<Rightarrow> int" where
  "mp_stop_bits K params = (if c_cflag params AND CSTOPB K \<noteq> 0 then 2 else 1)"

definition mp_parity :: "build \<Rightarrow> termios \<Rightarrow> int" where
  "mp_parity K params =
     (if c_cflag params AND PARENB K = 0 then NONE K
      else if c_cflag params AND PARODD K \<noteq> 0 then ODD K
      else EVEN K)"

text \<open>Also the body of \<^verbatim>\<open>sp_get_flow_control_impl\<close>, where \<^verbatim>\<open>NONE\<close> is
  written 0.\<close>

definition mp_flow_control :: "build \<Rightarrow> int \<Rightarrow> termios \<Rightarrow> int" where
  "mp_flow_control K none params =
     (let r1 = (case CRTSCTS K of
                  Some crtscts \<Rightarrow> if c_cflag params AND crtscts \<noteq> 0 then none + HARD K else none
                | None \<Rightarrow> none)
      in if c_iflag params AND (IXON K OR IXOFF K OR IXANY K) \<noteq> 0 then r1 + SOFT K else r1)"

text \<open>Also the body of \<^verbatim>\<open>sp_get_read_timeout_impl\<close>.\<close>

definition mp_read_timeout :: "termios \<Rightarrow> int" where
  "mp_read_timeout params =
     (if c_cc_VTIME params = 0 \<and> c_cc_VMIN params = 0 then - 1
      else uint (c_cc_VTIME params) * 100)"

text \<open>The structure \<^verbatim>\<open>*mp\<close> is passed in: a platform without a custom-rate getter has
  no default case and leaves \<^verbatim>\<open>mp->data_rate\<close> as it was.\<close>

definition get_modem_params_impl ::
  "build \<Rightarrow> port \<Rightarrow> modem_params \<Rightarrow> (error + modem_params) \<times> port" where
  "get_modem_params_impl K self mp =
     (case tcgetattr self of
        (None, s1) \<Rightarrow> (Inl (SysFail ''tcgetattr''), s1)
      | (Some params, s1) \<Rightarrow>
          (case (case ospeed_switch K (cfgetospeed params) of
                   Some r \<Rightarrow> (Inr r, s1)
                 | None \<Rightarrow>
                     if os K = OS_LINUX
                     then (case get_custom_baud_rate_linux K s1 of (r, s2) \<Rightarrow> (Inr r, s2))
                     else if os K = OS_DARWIN then (get_custom_baud_rate_darwin s1, s1)
                     else (Inr (data_rate mp), s1)) of
             (Inl e, s2) \<Rightarrow> (Inl e, s2)
           | (Inr rate, s2) \<Rightarrow>
               (Inr (mp\<lparr>data_rate := rate,
                        data_bits := mp_data_bits K params,
                        stop_bits := mp_stop_bits K params,
                        parity := mp_parity K params,
                        flow_control := mp_flow_control K (NONE K) params,
                        read_timeout := mp_read_timeout params\<rparr>), s2)))"

section \<open>The flow-control and read-timeout accessors\<close>

definition sp_set_flow_control_impl :: "build \<Rightarrow> VALUE \<Rightarrow> port \<Rightarrow> (error + VALUE) \<times> port" where
  "sp_set_flow_control_impl K val self =
     (case Check_Type_FIXNUM val of
        Inl e \<Rightarrow> (Inl e, self)
      | Inr n \<Rightarrow>
          (case tcgetattr self of
             (None, s1) \<Rightarrow> (Inl (SysFail ''tcgetattr''), s1)
           | (Some params, s1) \<Rightarrow>
               (case FIX2INT n of
                  Inl e \<Rightarrow> (Inl e, s1)
                | Inr flowc \<Rightarrow>
                    (case flow_control_block K flowc params of
                       Inl e \<Rightarrow> (Inl e, s1)
                     | Inr params1 \<Rightarrow>
                         (case tcsetattr params1 s1 of
                            (False, s2) \<Rightarrow> (Inl (SysFail ''tcsetattr''), s2)
                          | (True, s2) \<Rightarrow> (Inr val, s2))))))"

definition sp_get_flow_control_impl :: "build \<Rightarrow> port \<Rightarrow> (error + VALUE) \<times> port" where
  "sp_get_flow_control_impl K self =
     (case tcgetattr self of
        (None, s1) \<Rightarrow> (Inl (SysFail ''tcgetattr''), s1)
      | (Some params, s1) \<Rightarrow> (Inr (Fixnum (mp_flow_control K 0 params)), s1))"

definition sp_set_read_timeout_impl :: "VALUE \<Rightarrow> port \<Rightarrow> (error + VALUE) \<times> port" where
  "sp_set_read_timeout_impl val self =
     (case Check_Type_FIX2INT val of
        Inl e \<Rightarrow> (Inl e, self)
      | Inr timeout \<Rightarrow>
          (case tcgetattr self of
             (None, s1) \<Rightarrow> (Inl (SysFail ''tcgetattr''), s1)
           | (Some params, s1) \<Rightarrow>
               (case tcsetattr (read_timeout_block timeout params) s1 of
                  (False, s2) \<Rightarrow> (Inl (SysFail ''tcsetattr''), s2)
                | (True, s2) \<Rightarrow> (Inr val, s2))))"

definition sp_get_read_timeout_impl :: "port \<Rightarrow> (error + VALUE) \<times> port" where
  "sp_get_read_timeout_impl self =
     (case tcgetattr self of
        (None, s1) \<Rightarrow> (Inl (SysFail ''tcgetattr''), s1)
      | (Some params, s1) \<Rightarrow> (Inr (Fixnum (mp_read_timeout params)), s1))"

section \<open>Concrete builds and ports\<close>

text \<open>
  A Linux build: the constants of \<^verbatim>\<open>asm-generic/termbits.h\<close> and
  \<^verbatim>\<open>linux/tty_flags.h\<close> (\<^verbatim>\<open>B76800\<close> is not defined there).
  Modelled from the spec: \<^verbatim>\<open>serialport.h\<close> is missing, and the values of
  \<^verbatim>\<open>NONE\<close>, \<^verbatim>\<open>SOFT\<close>, \<^verbatim>\<open>HARD\<close>, \<^verbatim>\<open>EVEN\<close> and \<^verbatim>\<open>ODD\<close> follow
  section 3 of the specification (NONE=0, SOFT=1, HARD=2, EVEN=1) with ODD=2.
\<close>

definition linux_build :: build where
  "linux_build =
     \<lparr>os = OS_LINUX,
      CSIZE = 0x30, CS5 = 0x00, CS6 = 0x10, CS7 = 0x20, CS8 = 0x30,
      CSTOPB = 0x40, PARENB = 0x100, PARODD = 0x200, CRTSCTS = Some 0x80000000,
      IXON = 0x400, IXOFF = 0x1000, IXANY = 0x800,
      B50 = 1, B75 = 2, B110 = 3, B134 = 4, B150 = 5, B200 = 6, B300 = 7, B600 = 8,
      B1200 = 9, B1800 = 10, B2400 = 11, B4800 = 12, B9600 = 13, B19200 = 14, B38400 = 15,
      B57600 = Some 0x1001, B76800 = None, B115200 = Some 0x1002, B230400 = Some 0x1003,
      ASYNC_SPD_MASK = 0x1030, ASYNC_SPD_CUST = 0x30,
      NONE = 0, EVEN = 1, ODD = 2, SOFT = 1, HARD = 2\<rparr>"

text \<open>A Darwin build: the constants of the BSD \<^verbatim>\<open>sys/termios.h\<close>, where a speed
  constant is the rate itself. The serial-information constants are unused there.\<close>

definition darwin_build :: build where
  "darwin_build =
     \<lparr>os = OS_DARWIN,
      CSIZE = 0x300, CS5 = 0x000, CS6 = 0x100, CS7 = 0x200, CS8 = 0x300,
      CSTOPB = 0x400, PARENB = 0x1000, PARODD = 0x2000, CRTSCTS = Some 0x30000,
      IXON = 0x200, IXOFF = 0x400, IXANY = 0x800,
      B50 = 50, B75 = 75, B110 = 110, B134 = 134, B150 = 150, B200 = 200, B300 = 300,
      B600 = 600, B1200 = 1200, B1800 = 1800, B2400 = 2400, B4800 = 4800, B9600 = 9600,
      B19200 = 19200, B38400 = 38400,
      B57600 = Some 57600, B76800 = Some 76800, B115200 = Some 115200,
      B230400 = Some 230400,
      ASYNC_SPD_MASK = 0, ASYNC_SPD_CUST = 0,
      NONE = 0, EVEN = 1, ODD = 2, SOFT = 1, HARD = 2\<rparr>"

text \<open>A build whose \<^verbatim>\<open>termios.h\<close> does not define \<^verbatim>\<open>CRTSCTS\<close>, and which has
  no custom rates.\<close>

definition no_crtscts_build :: build where
  "no_crtscts_build = linux_build\<lparr>os := OS_AIX, CRTSCTS := None\<rparr>"

text \<open>A build whose character-size field is three bits wide, so that it has values
  other than the four constants.\<close>

definition wide_csize_build :: build where
  "wide_csize_build = linux_build\<lparr>CSIZE := 0x70\<rparr>"

text \<open>A Linux port as \<^verbatim>\<open>sp_create_impl\<close> leaves it (8 data bits, receiver on,
  local line) at 9600 baud, on a UART with a 24 MHz base clock.\<close>

definition port_9600_8N1 :: port where
  "port_9600_8N1 =
     \<lparr>kern_termios =
        \<lparr>c_iflag = 0, c_oflag = 0, c_cflag = 0x8B0, c_lflag = 0,
         c_cc_VTIME = 0, c_cc_VMIN = 1, c_ispeed = 13, c_ospeed = 13\<rparr>,
      kern_serial = \<lparr>flags = 0, custom_divisor = 0, baud_base = 24000000\<rparr>,
      custom_baud = Qnil,
      tcgetattr_fails = False, tcsetattr_fails = False, tiocgserial_fails = False,
      tiocsserial_fails = False, iossiospeed_fails = False,
      trace = []\<rparr>"

text \<open>The Linux port with 7 data bits, two stop bits and odd parity.\<close>

definition port_7O2 :: port where
  "port_7O2 = port_9600_8N1\<lparr>kern_termios := (kern_termios port_9600_8N1)\<lparr>c_cflag := 0xBE0\<rparr>\<rparr>"

text \<open>The Linux port with the speed \<^verbatim>\<open>B0\<close>, which is none of the constants that
  inspect decodes.\<close>

definition port_B0 :: port where
  "port_B0 = port_9600_8N1
     \<lparr>kern_termios := (kern_termios port_9600_8N1)\<lparr>c_ispeed := 0, c_ospeed := 0\<rparr>\<rparr>"

text \<open>A port of the build with the wide character-size field, whose size bits are none
  of the four constants.\<close>

definition port_odd_size :: port where
  "port_odd_size = port_9600_8N1
     \<lparr>kern_termios := (kern_termios port_9600_8N1)\<lparr>c_cflag := 0x8C0\<rparr>\<rparr>"

text \<open>The same port after a custom rate of 250000 baud was set: speed constant
  \<^verbatim>\<open>B38400\<close>, the flag \<^verbatim>\<open>ASYNC_SPD_CUST\<close> and the divisor 96.\<close>

definition port_custom_250000 :: port where
  "port_custom_250000 =
     port_9600_8N1
       \<lparr>kern_termios := (kern_termios port_9600_8N1)\<lparr>c_ispeed := 15, c_ospeed := 15\<rparr>,
        kern_serial := \<lparr>flags = 0x30, custom_divisor = 96, baud_base = 24000000\<rparr>\<rparr>"

text \<open>A Darwin port with 7 data bits, two stop bits and odd parity, on which the custom
  rate 250000 was set, so that the instance variable caches it.\<close>

definition darwin_port_250000 :: port where
  "darwin_port_250000 =
     \<lparr>kern_termios =
        \<lparr>c_iflag = 0, c_oflag = 0, c_cflag = 0xBE00, c_lflag = 0,
         c_cc_VTIME = 0, c_cc_VMIN = 1, c_ispeed = 9600, c_ospeed = 9600\<rparr>,
      kern_serial = \<lparr>flags = 0, custom_divisor = 0, baud_base = 0\<rparr>,
      custom_baud = Fixnum 250000,
      tcgetattr_fails = False, tcsetattr_fails = False, tiocgserial_fails = True,
      tiocsserial_fails = True, iossiospeed_fails = False,
      trace = []\<rparr>"

definition mp0 :: modem_params where
  "mp0 = \<lparr>data_rate = 0, data_bits = 0, stop_bits = 0, parity = 0, flow_control = 0,
          read_timeout = 0\<rparr>"

section \<open>The read-timeout law of the specification\<close>

text \<open>The function \<open>normalize\<close> in the words of the specification: \<open>-1\<close> and \<open>0\<close>
  pass through, a positive value is snapped to \<open>(t+50)/100*100\<close>. The specification
  says nothing of other negative values; the source treats every negative value alike.\<close>

definition normalize_spec :: "int \<Rightarrow> int" where
  "normalize_spec t = (if t < 0 then - 1 else if t = 0 then 0 else (t + 50) div 100 * 100)"

section \<open>Well-formed builds and kinds of errors\<close>

text \<open>The mask of \<^verbatim>\<open>CRTSCTS\<close>, empty where the macro is not defined.\<close>

definition crtscts_mask :: "build \<Rightarrow> tcflag" where
  "crtscts_mask K = (case CRTSCTS K of Some c \<Rightarrow> c | None \<Rightarrow> 0)"

definition int_fits :: "int \<Rightarrow> bool" where
  "int_fits n = (- (2 ^ 31) \<le> n \<and> n < 2 ^ 31)"

text \<open>
  What every \<^verbatim>\<open>termios.h\<close> and the header \<^verbatim>\<open>serialport.h\<close> guarantee, and the
  source relies on: the labels of a \<^verbatim>\<open>switch\<close> are distinct, the four character
  sizes lie within the mask \<^verbatim>\<open>CSIZE\<close>, the fields of \<^verbatim>\<open>c_cflag\<close> for character
  size, stop bits, parity and hardware flow control do not overlap, and the constants of
  \<^verbatim>\<open>serialport.h\<close> are C \<^verbatim>\<open>int\<close>s.
\<close>

definition well_formed_build :: "build \<Rightarrow> bool" where
  "well_formed_build K =
     (distinct [CS5 K, CS6 K, CS7 K, CS8 K]
      \<and> CS5 K AND CSIZE K = CS5 K \<and> CS6 K AND CSIZE K = CS6 K
      \<and> CS7 K AND CSIZE K = CS7 K \<and> CS8 K AND CSIZE K = CS8 K
      \<and> CSIZE K AND CSTOPB K = 0 \<and> CSIZE K AND PARENB K = 0 \<and> CSIZE K AND PARODD K = 0
      \<and> CSIZE K AND crtscts_mask K = 0
      \<and> CSTOPB K AND PARENB K = 0 \<and> CSTOPB K AND PARODD K = 0
      \<and> CSTOPB K AND crtscts_mask K = 0
      \<and> PARENB K AND PARODD K = 0 \<and> PARENB K AND crtscts_mask K = 0
      \<and> PARODD K AND crtscts_mask K = 0
      \<and> PARENB K \<noteq> 0
      \<and> distinct [EVEN K, ODD K, NONE K]
      \<and> int_fits (NONE K) \<and> int_fits (EVEN K) \<and> int_fits (ODD K)
      \<and> int_fits (SOFT K) \<and> int_fits (HARD K))"

text \<open>The errors of \<^verbatim>\<open>Check_Type\<close> and \<^verbatim>\<open>FIX2INT\<close>.\<close>

definition fixnum_error :: "error \<Rightarrow> bool" where
  "fixnum_error e = (e = TypeError ''wrong argument type'' \<or> e = RangeError)"

text \<open>The errors of the validation of the baud rate.\<close>

definition rate_error :: "error \<Rightarrow> bool" where
  "rate_error e =
     (e = ArgError ''invalid baud rate'' \<or> e = ArgError ''baud rate too high''
      \<or> e = ArgError ''unknown baud rate'')"

text \<open>The errors of the validation of data bits, stop bits and parity, and with them that
  of the flow control.\<close>

definition framing_error :: "error \<Rightarrow> bool" where
  "framing_error e =
     (e = ArgError ''unknown character size'' \<or> e = ArgError ''unknown number of stop bits''
      \<or> e = ArgError ''unknown parity'')"

definition field_error :: "error \<Rightarrow> bool" where
  "field_error e = (framing_error e \<or> e = ArgError ''invalid flow control'')"

text \<open>The errors of the \<^verbatim>\<open>ioctl\<close>s of the custom-rate functions.\<close>

definition serial_ioctl_error :: "error \<Rightarrow> bool" where
  "serial_ioctl_error e =
     (e = ArgError ''unable to execute TIOCGSERIAL ioctl for custom baud''
      \<or> e = ArgError ''custom baud rate is too high''
      \<or> e = ArgError ''unable to set custom baud rate'')"

text \<open>A validation error: a requested field was rejected by the checks of
  \<^verbatim>\<open>sp_set_modem_params_impl\<close> on the value itself.\<close>

definition validation_error :: "error \<Rightarrow> bool" where
  "validation_error e = (fixnum_error e \<or> rate_error e \<or> field_error e)"

section \<open>Properties\<close>

subsection \<open>The port selector\<close>

lemma length_ports: "length (ports p) = 8"
  by (simp add: ports_def)

lemma sp_create_impl_port_raises_iff:
  "sp_create_impl_port p (Fixnum n) = Inl (ArgError ''illegal port number'')
     \<longleftrightarrow> - (2 ^ 31) \<le> n \<and> n < 2 ^ 31 \<and> (n < 0 \<or> 8 < n)"
  by (simp add: sp_create_impl_port_def FIX2INT_def length_ports)

text \<open>
  Claim C1. Open is claimed to raise the invalid-port-selector error exactly when the
  index is outside the 8-entry table (index < 0 or index >= 8), so that the access
  \<^verbatim>\<open>ports[index]\<close> is always in bounds. The guard of the source compares with
  \<^verbatim>\<open>>\<close> where the table needs \<^verbatim>\<open>>=\<close>: on every platform the selector 8 passes
  the guard and the read \<^verbatim>\<open>ports[8]\<close> is one past the last entry.
\<close>

theorem sp_create_impl_port_index_8:
  "sp_create_impl_port p (Fixnum 8) = Inl (OutOfBounds 8)"
  by (simp add: sp_create_impl_port_def FIX2INT_def length_ports)

subsection \<open>System calls\<close>

lemma logged_simps [simp]:
  "kern_termios (logged c s) = kern_termios s"
  "kern_serial (logged c s) = kern_serial s"
  "custom_baud (logged c s) = custom_baud s"
  "tcgetattr_fails (logged c s) = tcgetattr_fails s"
  "tcsetattr_fails (logged c s) = tcsetattr_fails s"
  "tiocgserial_fails (logged c s) = tiocgserial_fails s"
  "tiocsserial_fails (logged c s) = tiocsserial_fails s"
  "iossiospeed_fails (logged c s) = iossiospeed_fails s"
  "trace (logged c s) = trace s @ [c]"
  by (simp_all add: logged_def)

subsection \<open>Bits outside a mask\<close>

lemma and_not_outside:
  fixes c m x :: "'a::len word"
  assumes "m AND x = 0"
  shows "(c AND NOT x) AND m = c AND m"
proof -
  have "m = m AND (x OR NOT x)" by simp
  also have "\<dots> = (m AND x) OR (m AND NOT x)" by (rule bit.conj_disj_distrib)
  also have "\<dots> = m AND NOT x" using assms by simp
  finally have "m AND NOT x = m" by simp
  then have "c AND (m AND NOT x) = c AND m" by simp
  then show ?thesis by (simp add: and.assoc and.commute and.left_commute)
qed

lemma or_outside:
  fixes c m x :: "'a::len word"
  assumes "m AND x = 0"
  shows "(c OR x) AND m = c AND m"
proof -
  have "(c OR x) AND m = (c AND m) OR (x AND m)"
    by (simp add: bit.conj_disj_distrib2)
  also have "x AND m = 0" using assms by (simp add: and.commute)
  finally show ?thesis by simp
qed

lemma and_sub_zero:
  fixes m a b :: "'a::len word"
  assumes "m AND b = 0" "a AND b = a"
  shows "m AND a = 0"
proof -
  have "m AND a = m AND (a AND b)" using assms(2) by simp
  also have "\<dots> = a AND (m AND b)" by (simp add: and.left_commute and.commute)
  finally show ?thesis using assms(1) by simp
qed

subsection \<open>The blocks of configure\<close>

lemma wf_linux: "well_formed_build linux_build"
  by (simp add: well_formed_build_def linux_build_def crtscts_mask_def int_fits_def)

lemma wf_darwin: "well_formed_build darwin_build"
  by (simp add: well_formed_build_def darwin_build_def crtscts_mask_def int_fits_def)

lemma wf_nocrt: "well_formed_build no_crtscts_build"
  by (simp add: well_formed_build_def no_crtscts_build_def linux_build_def crtscts_mask_def int_fits_def)


lemma flags_frame [simp]:
  "c_iflag (cfsetispeed b t) = c_iflag t" "c_cflag (cfsetispeed b t) = c_cflag t"
  "c_iflag (cfsetospeed b t) = c_iflag t" "c_cflag (cfsetospeed b t) = c_cflag t"
  by (simp_all add: cfsetispeed_def cfsetospeed_def)

lemma SetDataBits_nil: "SetDataBits K Qnil p = Inr p"
  by (simp add: SetDataBits_def NIL_P_def)
lemma SetStopBits_nil: "SetStopBits K Qnil p = Inr p"
  by (simp add: SetStopBits_def NIL_P_def)
lemma SetParity_nil: "SetParity K Qnil p = Inr p"
  by (simp add: SetParity_def NIL_P_def)
lemma SetFlowControl_nil: "SetFlowControl K Qnil p = Inr p"
  by (simp add: SetFlowControl_def NIL_P_def)
lemma SetReadTimeout_nil: "SetReadTimeout Qnil p = Inr p"
  by (simp add: SetReadTimeout_def NIL_P_def)

lemma SetDataBits_frame:
  assumes "SetDataBits K v p = Inr p'" "well_formed_build K" "m AND CSIZE K = 0"
  shows "c_cflag p' AND m = c_cflag p AND m \<and> c_iflag p' = c_iflag p"
proof -
  have z: "m AND CS5 K = 0" "m AND CS6 K = 0" "m AND CS7 K = 0" "m AND CS8 K = 0"
    using assms(2,3) by (auto simp add: well_formed_build_def intro: and_sub_zero)
  show ?thesis
    using assms(1,3) z
    by (auto simp add: SetDataBits_def and_not_outside or_outside
        split: if_splits sum.splits option.splits)
qed

lemma SetStopBits_frame:
  assumes "SetStopBits K v p = Inr p'" "m AND CSTOPB K = 0"
  shows "c_cflag p' AND m = c_cflag p AND m \<and> c_iflag p' = c_iflag p"
  using assms
  by (auto simp add: SetStopBits_def and_not_outside or_outside split: if_splits sum.splits)

lemma SetParity_frame:
  assumes "SetParity K v p = Inr p'" "m AND PARENB K = 0" "m AND PARODD K = 0"
  shows "c_cflag p' AND m = c_cflag p AND m \<and> c_iflag p' = c_iflag p"
  using assms
  by (auto simp add: SetParity_def and_not_outside or_outside split: if_splits sum.splits)

lemma flow_control_block_frame:
  assumes "flow_control_block K f p = Inr p'" "m AND crtscts_mask K = 0"
  shows "c_cflag p' AND m = c_cflag p AND m"
  using assms
  by (auto simp add: flow_control_block_def crtscts_mask_def and_not_outside or_outside
      split: if_splits sum.splits option.splits)

lemma SetFlowControl_frame:
  assumes "SetFlowControl K v p = Inr p'" "m AND crtscts_mask K = 0"
  shows "c_cflag p' AND m = c_cflag p AND m"
  using assms flow_control_block_frame[of K _ p p' m]
  by (auto simp add: SetFlowControl_def split: if_splits sum.splits)

lemma SetReadTimeout_frame:
  assumes "SetReadTimeout v p = Inr p'"
  shows "c_cflag p' = c_cflag p \<and> c_iflag p' = c_iflag p"
  using assms
  by (auto simp add: SetReadTimeout_def read_timeout_block_def split: if_splits sum.splits)


lemma darwin_prologue_D:
  assumes "darwin_prologue K p s = (r, s2)"
  shows "kern_termios s2 = kern_termios s"
    and "tcsetattr_fails s2 = tcsetattr_fails s"
    and "os K \<noteq> OS_DARWIN \<Longrightarrow> s2 = s \<and> r = Inr (0, p)"
    and "r = Inr (c, p1) \<Longrightarrow> c_cflag p1 = c_cflag p \<and> c_iflag p1 = c_iflag p"
    and "r = Inl e \<Longrightarrow> e = RangeError"
  using assms
  by (auto simp add: darwin_prologue_def clear_custom_baud_rate_darwin_def
      get_custom_baud_rate_darwin_def FIX2INT_def split: if_splits sum.splits VALUE.splits)

lemma clear_custom_baud_rate_linux_D:
  assumes "clear_custom_baud_rate_linux K s = (r, s1)"
  shows "kern_termios s1 = kern_termios s" and "tcsetattr_fails s1 = tcsetattr_fails s"
    and "r = Inl e \<Longrightarrow> serial_ioctl_error e"
  using assms
  by (auto simp add: clear_custom_baud_rate_linux_def ioctl_TIOCGSERIAL_def
      ioctl_TIOCSSERIAL_def Let_def serial_ioctl_error_def split: if_splits)

lemma data_rate_switch_D:
  assumes "data_rate_switch K n c = Inr (b, c')"
  shows "c' = c \<or> 0 < c'"
  using assms by (auto simp add: data_rate_switch_def split: if_splits)

lemma data_rate_switch_E:
  assumes "data_rate_switch K n c = Inl e"
  shows "rate_error e"
  using assms by (auto simp add: data_rate_switch_def rate_error_def split: if_splits)

lemma Check_Type_FIX2INT_E: "Check_Type_FIX2INT v = Inl e \<Longrightarrow> fixnum_error e"
  by (auto simp add: Check_Type_FIX2INT_def Check_Type_FIXNUM_def FIX2INT_def fixnum_error_def
      split: VALUE.splits if_splits)

lemma SetDataRate_D:
  assumes "SetDataRate K v c p s = (r, s3)"
  shows "kern_termios s3 = kern_termios s"
    and "tcsetattr_fails s3 = tcsetattr_fails s"
    and "os K \<noteq> OS_LINUX \<Longrightarrow> s3 = s"
    and "r = Inr (c', p2) \<Longrightarrow> c_cflag p2 = c_cflag p \<and> c_iflag p2 = c_iflag p \<and> (c' = c \<or> 0 < c')"
    and "r = Inl e \<Longrightarrow> fixnum_error e \<or> rate_error e \<or> serial_ioctl_error e"
proof -
  show "kern_termios s3 = kern_termios s"
    using assms
    by (auto simp add: SetDataRate_def split: if_splits sum.splits prod.splits
        dest: clear_custom_baud_rate_linux_D(1))
  show "tcsetattr_fails s3 = tcsetattr_fails s"
    using assms
    by (auto simp add: SetDataRate_def split: if_splits sum.splits prod.splits
        dest: clear_custom_baud_rate_linux_D(2))
  show "os K \<noteq> OS_LINUX \<Longrightarrow> s3 = s"
    using assms
    by (auto simp add: SetDataRate_def split: if_splits sum.splits prod.splits)
  show "r = Inr (c', p2) \<Longrightarrow> c_cflag p2 = c_cflag p \<and> c_iflag p2 = c_iflag p \<and> (c' = c \<or> 0 < c')"
    using assms
    by (auto simp add: SetDataRate_def split: if_splits sum.splits prod.splits
        dest: data_rate_switch_D)
  show "r = Inl e \<Longrightarrow> fixnum_error e \<or> rate_error e \<or> serial_ioctl_error e"
    using assms
    by (auto simp add: SetDataRate_def rate_error_def split: if_splits sum.splits prod.splits
        dest: data_rate_switch_E Check_Type_FIX2INT_E clear_custom_baud_rate_linux_D(3))
qed

lemma apply_custom_baud_rate_D:
  assumes "apply_custom_baud_rate K c s = (r, s5)"
  shows "kern_termios s5 = kern_termios s"
    and "os K \<noteq> OS_LINUX \<Longrightarrow> os K \<noteq> OS_DARWIN \<Longrightarrow> s5 = s \<and> r = Inr 0"
    and "r = Inl e \<Longrightarrow> os K = OS_LINUX \<longrightarrow> 0 \<le> c \<Longrightarrow> serial_ioctl_error e"
  using assms
  by (auto simp add: apply_custom_baud_rate_def set_custom_baud_rate_linux_def
      set_custom_baud_rate_darwin_def ioctl_TIOCGSERIAL_def ioctl_TIOCSSERIAL_def
      ioctl_IOSSIOSPEED_def Let_def serial_ioctl_error_def split: if_splits bool.splits)


lemma configure_run:
  assumes "length argv \<noteq> 0"
  obtains
    (getattr) "tcgetattr_fails s"
      "sp_set_modem_params_impl K argv s = (Inl (SysFail ''tcgetattr''), logged Tcgetattr s)"
  | (prologue) e s2 where "\<not> tcgetattr_fails s"
      "darwin_prologue K (kern_termios s) (logged Tcgetattr s) = (Inl e, s2)"
      "sp_set_modem_params_impl K argv s = (Inl e, s2)"
  | (rate) c0 p1 s2 e s3 where "\<not> tcgetattr_fails s"
      "darwin_prologue K (kern_termios s) (logged Tcgetattr s) = (Inr (c0, p1), s2)"
      "SetDataRate K (arg_data_rate argv) c0 p1 s2 = (Inl e, s3)"
      "sp_set_modem_params_impl K argv s = (Inl e, s3)"
  | (fields) c0 p1 s2 c p2 s3 e where "\<not> tcgetattr_fails s"
      "darwin_prologue K (kern_termios s) (logged Tcgetattr s) = (Inr (c0, p1), s2)"
      "SetDataRate K (arg_data_rate argv) c0 p1 s2 = (Inr (c, p2), s3)"
      "SetFields K argv p2 = Inl e"
      "sp_set_modem_params_impl K argv s = (Inl e, s3)"
  | (setattr) c0 p1 s2 c p2 s3 p3 where "\<not> tcgetattr_fails s"
      "darwin_prologue K (kern_termios s) (logged Tcgetattr s) = (Inr (c0, p1), s2)"
      "SetDataRate K (arg_data_rate argv) c0 p1 s2 = (Inr (c, p2), s3)"
      "SetFields K argv p2 = Inr p3" "tcsetattr_fails s3"
      "sp_set_modem_params_impl K argv s
         = (Inl (SysFail ''tcsetattr''), logged (Tcsetattr p3) s3)"
  | (custom) c0 p1 s2 c p2 s3 p3 e s5 where "\<not> tcgetattr_fails s"
      "darwin_prologue K (kern_termios s) (logged Tcgetattr s) = (Inr (c0, p1), s2)"
      "SetDataRate K (arg_data_rate argv) c0 p1 s2 = (Inr (c, p2), s3)"
      "SetFields K argv p2 = Inr p3" "\<not> tcsetattr_fails s3"
      "apply_custom_baud_rate K c (logged (Tcsetattr p3) (s3\<lparr>kern_termios := p3\<rparr>))
         = (Inl e, s5)"
      "sp_set_modem_params_impl K argv s = (Inl e, s5)"
  | (saved) c0 p1 s2 c p2 s3 p3 x s5 where "\<not> tcgetattr_fails s"
      "darwin_prologue K (kern_termios s) (logged Tcgetattr s) = (Inr (c0, p1), s2)"
      "SetDataRate K (arg_data_rate argv) c0 p1 s2 = (Inr (c, p2), s3)"
      "SetFields K argv p2 = Inr p3" "\<not> tcsetattr_fails s3"
      "apply_custom_baud_rate K c (logged (Tcsetattr p3) (s3\<lparr>kern_termios := p3\<rparr>))
         = (Inr x, s5)"
      "sp_set_modem_params_impl K argv s = (Inr (argv ! 0), s5)"
proof (cases "tcgetattr_fails s")
  case True
  with assms have "sp_set_modem_params_impl K argv s
      = (Inl (SysFail ''tcgetattr''), logged Tcgetattr s)"
    by (simp add: sp_set_modem_params_impl_def tcgetattr_def)
  with True show ?thesis by (rule getattr)
next
  case g: False
  obtain r2 s2 where d: "darwin_prologue K (kern_termios s) (logged Tcgetattr s) = (r2, s2)"
    by (cases "darwin_prologue K (kern_termios s) (logged Tcgetattr s)")
  show ?thesis
  proof (cases r2)
    case (Inl e)
    with assms g d have "sp_set_modem_params_impl K argv s = (Inl e, s2)"
      by (simp add: sp_set_modem_params_impl_def tcgetattr_def)
    with g d Inl show ?thesis by (auto intro: prologue)
  next
    case (Inr cp)
    obtain c0 p1 where cp: "cp = (c0, p1)" by (cases cp)
    note d' = d[unfolded Inr cp]
    obtain r3 s3 where r: "SetDataRate K (arg_data_rate argv) c0 p1 s2 = (r3, s3)"
      by (cases "SetDataRate K (arg_data_rate argv) c0 p1 s2")
    show ?thesis
    proof (cases r3)
      case (Inl e)
      with assms g d' r have "sp_set_modem_params_impl K argv s = (Inl e, s3)"
        by (simp add: sp_set_modem_params_impl_def tcgetattr_def)
      with g d' r Inl show ?thesis by (auto intro: rate)
    next
      case (Inr cq)
      obtain c p2 where cq: "cq = (c, p2)" by (cases cq)
      note r' = r[unfolded Inr cq]
      show ?thesis
      proof (cases "SetFields K argv p2")
        case (Inl e)
        with assms g d' r' have "sp_set_modem_params_impl K argv s = (Inl e, s3)"
          by (simp add: sp_set_modem_params_impl_def tcgetattr_def)
        with g d' r' Inl show ?thesis by (auto intro: fields)
      next
        case f: (Inr p3)
        show ?thesis
        proof (cases "tcsetattr_fails s3")
          case True
          with assms g d' r' f have "sp_set_modem_params_impl K argv s
              = (Inl (SysFail ''tcsetattr''), logged (Tcsetattr p3) s3)"
            by (simp add: sp_set_modem_params_impl_def tcgetattr_def tcsetattr_def)
          with g d' r' f True show ?thesis by (auto intro: setattr)
        next
          case t: False
          obtain r5 s5 where a: "apply_custom_baud_rate K c
              (logged (Tcsetattr p3) (s3\<lparr>kern_termios := p3\<rparr>)) = (r5, s5)"
            by (cases "apply_custom_baud_rate K c
              (logged (Tcsetattr p3) (s3\<lparr>kern_termios := p3\<rparr>))")
          show ?thesis
          proof (cases r5)
            case (Inl e)
            with assms g d' r' f t a have "sp_set_modem_params_impl K argv s = (Inl e, s5)"
              by (simp add: sp_set_modem_params_impl_def tcgetattr_def tcsetattr_def)
            with g d' r' f t a Inl show ?thesis by (auto intro: custom)
          next
            case (Inr x)
            with assms g d' r' f t a
            have "sp_set_modem_params_impl K argv s = (Inr (argv ! 0), s5)"
              by (simp add: sp_set_modem_params_impl_def tcgetattr_def tcsetattr_def)
            with g d' r' f t a Inr show ?thesis by (auto intro: saved)
          qed
        qed
      qed
    qed
  qed
qed

lemma configure_termios:
  assumes "sp_set_modem_params_impl K argv s = (r, s')"
  shows "kern_termios s' = kern_termios s
     \<or> (\<exists>p2 p3. c_cflag p2 = c_cflag (kern_termios s) \<and> c_iflag p2 = c_iflag (kern_termios s)
            \<and> SetFields K argv p2 = Inr p3 \<and> kern_termios s' = p3)"
proof (cases "length argv = 0")
  case True
  with assms show ?thesis by (simp add: sp_set_modem_params_impl_def)
next
  case False
  then show ?thesis
  proof (cases rule: configure_run[of argv s K])
    case getattr
    with assms show ?thesis by auto
  next
    case (prologue e s2)
    with assms darwin_prologue_D(1)[OF prologue(2)] show ?thesis by auto
  next
    case (rate c0 p1 s2 e s3)
    with assms darwin_prologue_D(1)[OF rate(2)] SetDataRate_D(1)[OF rate(3)]
    show ?thesis by auto
  next
    case (fields c0 p1 s2 c p2 s3 e)
    with assms darwin_prologue_D(1)[OF fields(2)] SetDataRate_D(1)[OF fields(3)]
    show ?thesis by auto
  next
    case (setattr c0 p1 s2 c p2 s3 p3)
    with assms darwin_prologue_D(1)[OF setattr(2)] SetDataRate_D(1)[OF setattr(3)]
    show ?thesis by auto
  next
    case (custom c0 p1 s2 c p2 s3 p3 e s5)
    have "c_cflag p2 = c_cflag (kern_termios s) \<and> c_iflag p2 = c_iflag (kern_termios s)"
      using darwin_prologue_D(4)[OF custom(2) refl] SetDataRate_D(4)[OF custom(3) refl]
      by simp
    moreover have "kern_termios s' = p3"
      using assms custom(7) apply_custom_baud_rate_D(1)[OF custom(6)] by simp
    ultimately show ?thesis using custom(4) by blast
  next
    case (saved c0 p1 s2 c p2 s3 p3 x s5)
    have "c_cflag p2 = c_cflag (kern_termios s) \<and> c_iflag p2 = c_iflag (kern_termios s)"
      using darwin_prologue_D(4)[OF saved(2) refl] SetDataRate_D(4)[OF saved(3) refl]
      by simp
    moreover have "kern_termios s' = p3"
      using assms saved(7) apply_custom_baud_rate_D(1)[OF saved(6)] by simp
    ultimately show ?thesis using saved(4) by blast
  qed
qed

lemma configure_success:
  assumes "sp_set_modem_params_impl K argv s = (Inr v, s')" "length argv \<noteq> 0"
  shows "\<exists>p2 p3. c_cflag p2 = c_cflag (kern_termios s) \<and> c_iflag p2 = c_iflag (kern_termios s)
            \<and> SetFields K argv p2 = Inr p3 \<and> kern_termios s' = p3"
  using assms(2)
proof (cases rule: configure_run[of argv s K])
  case (saved c0 p1 s2 c p2 s3 p3 x s5)
  have "c_cflag p2 = c_cflag (kern_termios s) \<and> c_iflag p2 = c_iflag (kern_termios s)"
    using darwin_prologue_D(4)[OF saved(2) refl] SetDataRate_D(4)[OF saved(3) refl]
    by simp
  moreover have "kern_termios s' = p3"
    using assms saved(7) apply_custom_baud_rate_D(1)[OF saved(6)] by simp
  ultimately show ?thesis using saved(4) by blast
qed (use assms in auto)

lemma configure_error:
  assumes "sp_set_modem_params_impl K argv s = (Inl e, s')" "\<not> serial_ioctl_error e"
  shows "kern_termios s' = kern_termios s"
    and "os K \<noteq> OS_LINUX \<Longrightarrow> os K \<noteq> OS_DARWIN \<Longrightarrow> e \<noteq> SysFail ''tcsetattr''
           \<Longrightarrow> s' = logged Tcgetattr s"
proof -
  have n: "length argv \<noteq> 0"
    using assms(1) by (auto simp add: sp_set_modem_params_impl_def)
  from n show "kern_termios s' = kern_termios s"
  proof (cases rule: configure_run[of argv s K])
    case (custom c0 p1 s2 c p2 s3 p3 e' s5)
    have "os K = OS_LINUX \<longrightarrow> 0 \<le> c"
      using darwin_prologue_D(3)[OF custom(2)] SetDataRate_D(4)[OF custom(3) refl]
      by auto
    then have "serial_ioctl_error e'"
      using apply_custom_baud_rate_D(3)[OF custom(6) refl] by simp
    with assms custom(7) show ?thesis by auto
  next
    case (prologue e s2)
    with assms darwin_prologue_D(1)[OF prologue(2)] show ?thesis by auto
  next
    case (rate c0 p1 s2 e s3)
    with assms darwin_prologue_D(1)[OF rate(2)] SetDataRate_D(1)[OF rate(3)]
    show ?thesis by auto
  next
    case (fields c0 p1 s2 c p2 s3 e)
    with assms darwin_prologue_D(1)[OF fields(2)] SetDataRate_D(1)[OF fields(3)]
    show ?thesis by auto
  next
    case (setattr c0 p1 s2 c p2 s3 p3)
    with assms darwin_prologue_D(1)[OF setattr(2)] SetDataRate_D(1)[OF setattr(3)]
    show ?thesis by auto
  qed (use assms in auto)
  assume o: "os K \<noteq> OS_LINUX" "os K \<noteq> OS_DARWIN" and t: "e \<noteq> SysFail ''tcsetattr''"
  from n show "s' = logged Tcgetattr s"
  proof (cases rule: configure_run[of argv s K])
    case (custom c0 p1 s2 c p2 s3 p3 e' s5)
    with apply_custom_baud_rate_D(2)[OF custom(6) o] show ?thesis by auto
  next
    case (prologue e s2)
    with assms o darwin_prologue_D(3)[OF prologue(2)] show ?thesis by auto
  next
    case (rate c0 p1 s2 e s3)
    with assms o darwin_prologue_D(3)[OF rate(2)] SetDataRate_D(3)[OF rate(3)]
    show ?thesis by auto
  next
    case (fields c0 p1 s2 c p2 s3 e)
    with assms o darwin_prologue_D(3)[OF fields(2)] SetDataRate_D(3)[OF fields(3)]
    show ?thesis by auto
  qed (use assms t in auto)
qed

lemma hard_bit_set:
  fixes h :: int
  assumes "h \<noteq> 0" "f = h \<or> f = (h OR s)"
  shows "f AND h \<noteq> 0"
proof -
  have "(h OR s) AND h = h"
    by (auto simp add: bit_eq_iff bit_and_iff bit_or_iff)
  with assms show ?thesis by auto
qed

lemma SetDataBits_E: "SetDataBits K v p = Inl e \<Longrightarrow> fixnum_error e \<or> framing_error e"
  by (auto simp add: SetDataBits_def framing_error_def
      split: if_splits sum.splits option.splits dest: Check_Type_FIX2INT_E)

lemma SetStopBits_E: "SetStopBits K v p = Inl e \<Longrightarrow> fixnum_error e \<or> framing_error e"
  by (auto simp add: SetStopBits_def framing_error_def
      split: if_splits sum.splits dest: Check_Type_FIX2INT_E)

lemma SetParity_E: "SetParity K v p = Inl e \<Longrightarrow> fixnum_error e \<or> framing_error e"
  by (auto simp add: SetParity_def framing_error_def
      split: if_splits sum.splits dest: Check_Type_FIX2INT_E)

lemma SetFlowControl_E:
  "SetFlowControl K v p = Inl e \<Longrightarrow>
     fixnum_error e \<or> e = ArgError ''invalid flow control''
     \<or> e = IOError ''Hardware flow control not supported''"
  by (auto simp add: SetFlowControl_def flow_control_block_def
      split: if_splits sum.splits option.splits dest: Check_Type_FIX2INT_E)

lemma SetReadTimeout_E: "SetReadTimeout v p = Inl e \<Longrightarrow> fixnum_error e"
  by (auto simp add: SetReadTimeout_def split: if_splits sum.splits dest: Check_Type_FIX2INT_E)

lemma SetFields_E:
  assumes "SetFields K argv p = Inl e"
  shows "fixnum_error e \<or> field_error e \<or> e = IOError ''Hardware flow control not supported''"
  using assms
  by (auto simp add: SetFields_def field_error_def split: sum.splits
      dest: SetDataBits_E SetStopBits_E SetParity_E SetFlowControl_E SetReadTimeout_E)

lemma SetFlowControl_hard:
  assumes "CRTSCTS K = None" "HARD K \<noteq> 0" "f = HARD K \<or> f = (HARD K OR SOFT K)" "int_fits f"
  shows "SetFlowControl K (Fixnum f) p = Inl (IOError ''Hardware flow control not supported'')"
  using assms hard_bit_set[of "HARD K" f "SOFT K"]
  by (auto simp add: SetFlowControl_def flow_control_block_def NIL_P_def Check_Type_FIX2INT_def
      Check_Type_FIXNUM_def FIX2INT_def int_fits_def)

lemma SetFields_hard:
  assumes "CRTSCTS K = None" "HARD K \<noteq> 0" "f = HARD K \<or> f = (HARD K OR SOFT K)" "int_fits f"
    and "arg_flow_control argv = Fixnum f"
  shows "\<exists>e. SetFields K argv p = Inl e
           \<and> (e = IOError ''Hardware flow control not supported''
                \<or> fixnum_error e \<or> framing_error e)"
  using SetFlowControl_hard[OF assms(1-4)] assms(5)
  by (auto simp add: SetFields_def split: sum.splits
      dest: SetDataBits_E SetStopBits_E SetParity_E)


lemma SetDataRate_early:
  assumes "SetDataRate K v c p s = (Inl e, s3)" "\<not> serial_ioctl_error e"
  shows "s3 = s"
  using assms
  by (auto simp add: SetDataRate_def split: if_splits sum.splits prod.splits
      dest: clear_custom_baud_rate_linux_D(3))

lemma validation_not_ioctl: "validation_error e \<Longrightarrow> \<not> serial_ioctl_error e"
  by (auto simp add: validation_error_def serial_ioctl_error_def fixnum_error_def
      rate_error_def field_error_def framing_error_def)

lemma rate_error_not_field:
  "rate_error e \<Longrightarrow> \<not> fixnum_error e \<and> \<not> field_error e
     \<and> e \<noteq> IOError ''Hardware flow control not supported'' \<and> \<not> serial_ioctl_error e"
  by (auto simp add: serial_ioctl_error_def fixnum_error_def
      rate_error_def field_error_def framing_error_def)

lemma configure_rate_error:
  assumes "sp_set_modem_params_impl K argv s = (Inl e, s')" "rate_error e" "os K \<noteq> OS_DARWIN"
  shows "s' = logged Tcgetattr s"
proof -
  have n: "length argv \<noteq> 0"
    using assms(1) by (auto simp add: sp_set_modem_params_impl_def)
  note ne = rate_error_not_field[OF assms(2)]
  from n show ?thesis
  proof (cases rule: configure_run[of argv s K])
    case getattr
    with assms show ?thesis by auto
  next
    case (prologue e s2)
    with assms darwin_prologue_D(3)[OF prologue(2)] show ?thesis by auto
  next
    case (rate c0 p1 s2 e2 s3)
    with assms have "e2 = e" "s3 = s'" by auto
    with rate(3) ne have "s' = s2" using SetDataRate_early by blast
    with assms darwin_prologue_D(3)[OF rate(2)] show ?thesis by auto
  next
    case (fields c0 p1 s2 c p2 s3 e2)
    with assms have "e2 = e" by auto
    with SetFields_E[OF fields(4)] ne show ?thesis by auto
  next
    case (setattr c0 p1 s2 c p2 s3 p3)
    with assms show ?thesis by (auto simp add: rate_error_def)
  next
    case (custom c0 p1 s2 c p2 s3 p3 e' s5)
    have "os K = OS_LINUX \<longrightarrow> 0 \<le> c"
      using darwin_prologue_D(3)[OF custom(2)] SetDataRate_D(4)[OF custom(3) refl]
      by auto
    then have "serial_ioctl_error e'"
      using apply_custom_baud_rate_D(3)[OF custom(6) refl] by simp
    with assms custom(7) ne show ?thesis by auto
  next
    case (saved c0 p1 s2 c p2 s3 p3 x s5)
    with assms show ?thesis by auto
  qed
qed

text \<open>The definitions that evaluate a call on a concrete build and port.\<close>

lemmas configure_eval =
  sp_set_modem_params_impl_def tcgetattr_def tcsetattr_def darwin_prologue_def SetDataRate_def
  SetFields_def SetDataBits_def SetStopBits_def SetParity_def SetFlowControl_def
  SetReadTimeout_def flow_control_block_def read_timeout_block_def apply_custom_baud_rate_def
  data_rate_switch_def clear_custom_baud_rate_linux_def set_custom_baud_rate_linux_def
  get_custom_baud_rate_darwin_def clear_custom_baud_rate_darwin_def
  set_custom_baud_rate_darwin_def ioctl_TIOCGSERIAL_def ioctl_TIOCSSERIAL_def
  ioctl_IOSSIOSPEED_def logged_def use_hash_def is_T_HASH_def rb_hash_aref_def
  arg_data_rate_def arg_data_bits_def arg_stop_bits_def arg_parity_def arg_flow_control_def
  arg_read_timeout_def NIL_P_def Check_Type_FIX2INT_def Check_Type_FIXNUM_def FIX2INT_def
  cfsetispeed_def cfsetospeed_def cfgetospeed_def c_div_def c_int_add_def Let_def

lemmas inspect_eval =
  get_modem_params_impl_def ospeed_switch_def mp_data_bits_def mp_stop_bits_def mp_parity_def
  mp_flow_control_def mp_read_timeout_def get_custom_baud_rate_linux_def

subsection \<open>The read timeout\<close>

lemma round_trip_value:
  assumes "\<not> tcgetattr_fails s" "\<not> tcsetattr_fails s" "- (2 ^ 31) \<le> t" "t < 2 ^ 31"
  shows "fst (sp_get_read_timeout_impl (snd (sp_set_read_timeout_impl (Fixnum t) s)))
         = Inr (Fixnum (mp_read_timeout (read_timeout_block t (kern_termios s))))"
  using assms
  by (simp add: sp_get_read_timeout_impl_def sp_set_read_timeout_impl_def Check_Type_FIX2INT_def
      Check_Type_FIXNUM_def FIX2INT_def tcgetattr_def tcsetattr_def)

lemma vtime_small:
  assumes "50 \<le> t" "t \<le> 25549"
  shows "uint (word_of_int ((t + 50) div 100) :: 8 word) = (t + 50) div 100"
    and "(word_of_int ((t + 50) div 100) :: 8 word) \<noteq> 0"
proof -
  have b: "1 \<le> (t + 50) div 100" "(t + 50) div 100 < 256" using assms by auto
  show u: "uint (word_of_int ((t + 50) div 100) :: 8 word) = (t + 50) div 100"
    using b by (simp add: uint_word_of_int)
  show "(word_of_int ((t + 50) div 100) :: 8 word) \<noteq> 0"
  proof
    assume "(word_of_int ((t + 50) div 100) :: 8 word) = 0"
    then have "uint (word_of_int ((t + 50) div 100) :: 8 word) = 0" by simp
    with u b show False by simp
  qed
qed

lemma c_int_add_fits:
  assumes "- (2 ^ 31) \<le> a + b" "a + b < 2 ^ 31"
  shows "c_int_add a b = a + b"
  using assms by (simp add: c_int_add_def)

lemma c_div_nonneg:
  assumes "0 \<le> a" "0 < b"
  shows "c_div a b = a div b"
proof (cases "a = 0")
  case True
  then show ?thesis by (simp add: c_div_def)
next
  case False
  with assms show ?thesis by (simp add: c_div_def)
qed

lemma vtime_quotient:
  assumes "50 \<le> t" "t \<le> 25549"
  shows "c_div (c_int_add t 50) 100 = (t + 50) div 100"
proof -
  have "c_int_add t 50 = t + 50" using assms by (intro c_int_add_fits) auto
  then show ?thesis using assms by (simp add: c_div_nonneg)
qed

lemma mp_read_timeout_block:
  assumes "t = - 1 \<or> t = 0 \<or> (50 \<le> t \<and> t \<le> 25549)"
  shows "mp_read_timeout (read_timeout_block t p) = normalize_spec t"
  using assms vtime_small[of t] vtime_quotient[of t]
  by (auto simp add: mp_read_timeout_def read_timeout_block_def normalize_spec_def)

text \<open>At the largest \<^verbatim>\<open>int\<close> the sum wraps around to \<open>-2147483599\<close>, the quotient
  is \<open>-21474835\<close>, its low eight bits are 237, and the timeout reads back as 23700.\<close>

lemma read_timeout_int_max:
  "fst (sp_get_read_timeout_impl
          (snd (sp_set_read_timeout_impl (Fixnum 2147483647) port_9600_8N1)))
     = Inr (Fixnum 23700)"
  by (simp add: sp_get_read_timeout_impl_def sp_set_read_timeout_impl_def Check_Type_FIX2INT_def
      Check_Type_FIXNUM_def FIX2INT_def tcgetattr_def tcsetattr_def port_9600_8N1_def
      mp_read_timeout_def read_timeout_block_def c_int_add_def c_div_def logged_def)

text \<open>
  Claim C3, as amended. When both system calls succeed, \<open>setReadTimeout(t)\<close> followed by
  \<open>getReadTimeout()\<close> returns \<open>normalize(t)\<close> for \<open>t = -1\<close>, \<open>t = 0\<close> and every \<open>t\<close> from
  50 to 25549, which covers the six listed values; \<open>normalize\<close> passes \<open>-1\<close> and \<open>0\<close>
  through and snaps a positive value to \<open>(t+50)/100*100\<close>, so \<open>normalize(50) = 100\<close> and
  \<open>normalize(250) = 300\<close>.
\<close>

theorem read_timeout_round_trip:
  assumes "\<not> tcgetattr_fails s" and "\<not> tcsetattr_fails s"
    and "t = - 1 \<or> t = 0 \<or> (50 \<le> t \<and> t \<le> 25549)"
  shows "fst (sp_get_read_timeout_impl (snd (sp_set_read_timeout_impl (Fixnum t) s)))
           = Inr (Fixnum (normalize_spec t))
         \<and> normalize_spec 50 = 100 \<and> normalize_spec 250 = 300"
proof -
  have r: "- (2 ^ 31) \<le> t" "t < 2 ^ 31" using assms(3) by auto
  have "normalize_spec 50 = 100" "normalize_spec 250 = 300"
    by (simp_all add: normalize_spec_def)
  then show ?thesis
    using round_trip_value[OF assms(1,2) r] mp_read_timeout_block[OF assms(3)] by simp
qed

theorem read_timeout_round_trip_witness:
  "\<not> tcgetattr_fails port_9600_8N1 \<and> \<not> tcsetattr_fails port_9600_8N1
   \<and> fst (sp_get_read_timeout_impl (snd (sp_set_read_timeout_impl (Fixnum 250) port_9600_8N1)))
     = Inr (Fixnum 300)"
  using read_timeout_round_trip[of port_9600_8N1 250]
  by (simp add: port_9600_8N1_def normalize_spec_def)

text \<open>
  Claim C3 as stated fails. The value 50 reads back as 100, not as the 0 the claim gives
  for \<open>normalize(50)\<close>. Beyond the listed values the law fails too: 10 is stored as
  \<open>VTIME = 0, VMIN = 0\<close> and reads back as \<open>-1\<close>, and 25600 gives the quotient 256,
  whose low eight bits are 0, and reads back as \<open>-1\<close>.
\<close>

theorem read_timeout_round_trip_counterexample:
  "fst (sp_get_read_timeout_impl (snd (sp_set_read_timeout_impl (Fixnum 50) port_9600_8N1)))
     = Inr (Fixnum 100)
   \<and> fst (sp_get_read_timeout_impl (snd (sp_set_read_timeout_impl (Fixnum 10) port_9600_8N1)))
     = Inr (Fixnum (- 1))
   \<and> normalize_spec 10 = 0
   \<and> fst (sp_get_read_timeout_impl (snd (sp_set_read_timeout_impl (Fixnum 25600) port_9600_8N1)))
     = Inr (Fixnum (- 1))
   \<and> normalize_spec 25600 = 25600"
  by (simp add: sp_get_read_timeout_impl_def sp_set_read_timeout_impl_def Check_Type_FIX2INT_def
      Check_Type_FIXNUM_def FIX2INT_def tcgetattr_def tcsetattr_def port_9600_8N1_def
      mp_read_timeout_def read_timeout_block_def normalize_spec_def c_int_add_def c_div_def
      logged_def)

subsection \<open>Validation failures\<close>

text \<open>
  Claim C2, as amended. When \<^verbatim>\<open>sp_set_modem_params_impl\<close> raises a validation error
  (a value that is not a Fixnum or does not fit an \<^verbatim>\<open>int\<close>, or a rejected baud rate,
  character size, number of stop bits, parity or flow control), the terminal attributes of
  the descriptor are as before the call. On a platform other than Darwin nothing but the
  \<^verbatim>\<open>tcgetattr\<close> has happened if the platform has no custom rates (it is not Linux
  either) or if it is the baud rate that was rejected.
\<close>

theorem validation_failure_keeps_termios:
  assumes "fst (sp_set_modem_params_impl K argv s) = Inl e" and "validation_error e"
  shows "kern_termios (snd (sp_set_modem_params_impl K argv s)) = kern_termios s
     \<and> (os K \<noteq> OS_DARWIN \<and> (os K \<noteq> OS_LINUX \<or> rate_error e)
          \<longrightarrow> snd (sp_set_modem_params_impl K argv s) = logged Tcgetattr s)"
proof -
  obtain s' where r: "sp_set_modem_params_impl K argv s = (Inl e, s')"
    using assms(1) by (cases "sp_set_modem_params_impl K argv s") auto
  note ni = validation_not_ioctl[OF assms(2)]
  have t: "e \<noteq> SysFail ''tcsetattr''"
    using assms(2)
    by (auto simp add: validation_error_def fixnum_error_def rate_error_def field_error_def
        framing_error_def)
  have "kern_termios s' = kern_termios s"
    using configure_error(1)[OF r ni] .
  moreover have "s' = logged Tcgetattr s"
    if "os K \<noteq> OS_DARWIN" "os K \<noteq> OS_LINUX \<or> rate_error e"
    using that configure_error(2)[OF r ni _ _ t] configure_rate_error[OF r] by blast
  ultimately show ?thesis using r by simp
qed

theorem validation_failure_keeps_termios_witness:
  "validation_error (ArgError ''invalid baud rate'')
   \<and> fst (sp_set_modem_params_impl linux_build [Fixnum 0] port_custom_250000)
       = Inl (ArgError ''invalid baud rate'')
   \<and> kern_termios (snd (sp_set_modem_params_impl linux_build [Fixnum 0] port_custom_250000))
       = kern_termios port_custom_250000
   \<and> snd (sp_set_modem_params_impl linux_build [Fixnum 0] port_custom_250000)
       = logged Tcgetattr port_custom_250000"
proof -
  have v: "validation_error (ArgError ''invalid baud rate'')"
    by (simp add: validation_error_def rate_error_def)
  have r: "rate_error (ArgError ''invalid baud rate'')"
    by (simp add: rate_error_def)
  have f: "fst (sp_set_modem_params_impl linux_build [Fixnum 0] port_custom_250000)
       = Inl (ArgError ''invalid baud rate'')"
    by (simp add: configure_eval linux_build_def port_custom_250000_def port_9600_8N1_def)
  have o: "os linux_build \<noteq> OS_DARWIN" by (simp add: linux_build_def)
  show ?thesis
    using validation_failure_keeps_termios[OF f v] v f r o by simp
qed

text \<open>
  Claim C2 as stated fails for the custom-rate state. On Linux the call
  \<open>configure(9600, 9)\<close> on a port with an active custom rate clears the flag and the
  divisor in the kernel (\<^verbatim>\<open>clear_custom_baud_rate\<close> runs as soon as the rate is
  accepted) and then raises for the character size 9. On Darwin the same call resets the
  cached rate to 0 before any field is looked at.
\<close>

theorem validation_failure_counterexample:
  "fst (sp_set_modem_params_impl linux_build [Fixnum 9600, Fixnum 9] port_custom_250000)
     = Inl (ArgError ''unknown character size'')
   \<and> kern_serial (snd (sp_set_modem_params_impl linux_build [Fixnum 9600, Fixnum 9]
                          port_custom_250000))
     = \<lparr>flags = 0, custom_divisor = 0, baud_base = 24000000\<rparr>
   \<and> kern_serial port_custom_250000
     = \<lparr>flags = 0x30, custom_divisor = 96, baud_base = 24000000\<rparr>
   \<and> fst (sp_set_modem_params_impl darwin_build [Fixnum 9600, Fixnum 9] darwin_port_250000)
     = Inl (ArgError ''unknown character size'')
   \<and> custom_baud (snd (sp_set_modem_params_impl darwin_build [Fixnum 9600, Fixnum 9]
                          darwin_port_250000))
     = Fixnum 0
   \<and> custom_baud darwin_port_250000 = Fixnum 250000"
  by (simp add: configure_eval linux_build_def darwin_build_def port_custom_250000_def
      port_9600_8N1_def darwin_port_250000_def)

subsection \<open>Hardware flow control on a build without \<^verbatim>\<open>CRTSCTS\<close>\<close>

lemma sp_set_flow_control_impl_hard:
  assumes "CRTSCTS K = None" and "HARD K \<noteq> 0"
    and "f = HARD K \<or> f = (HARD K OR SOFT K)" and "int_fits f" and "\<not> tcgetattr_fails s"
  shows "sp_set_flow_control_impl K (Fixnum f) s
           = (Inl (IOError ''Hardware flow control not supported''), logged Tcgetattr s)"
  using assms hard_bit_set[of "HARD K" f "SOFT K"]
  by (auto simp add: sp_set_flow_control_impl_def flow_control_block_def Check_Type_FIXNUM_def
      FIX2INT_def int_fits_def tcgetattr_def)

lemma configure_hard:
  assumes "CRTSCTS K = None" and "HARD K \<noteq> 0"
    and "f = HARD K \<or> f = (HARD K OR SOFT K)" and "int_fits f" and "\<not> tcgetattr_fails s"
    and "length argv \<noteq> 0" and "arg_flow_control argv = Fixnum f"
  shows "\<exists>e s'. sp_set_modem_params_impl K argv s = (Inl e, s')
           \<and> (e = IOError ''Hardware flow control not supported'' \<or> fixnum_error e
                \<or> rate_error e \<or> framing_error e \<or> serial_ioctl_error e)
           \<and> kern_termios s' = kern_termios s
           \<and> (os K \<noteq> OS_LINUX \<and> os K \<noteq> OS_DARWIN \<longrightarrow> s' = logged Tcgetattr s)"
proof -
  note h = SetFields_hard[OF assms(1-4,7)]
  from assms(6) show ?thesis
  proof (cases rule: configure_run[of argv s K])
    case getattr
    with assms(5) show ?thesis by simp
  next
    case (prologue e s2)
    with darwin_prologue_D(1,3,5)[OF prologue(2)] show ?thesis
      by (auto simp add: fixnum_error_def)
  next
    case (rate c0 p1 s2 e s3)
    with darwin_prologue_D(1,3)[OF rate(2)] SetDataRate_D(1,3,5)[OF rate(3)]
    show ?thesis by auto
  next
    case (fields c0 p1 s2 c p2 s3 e)
    with darwin_prologue_D(1,3)[OF fields(2)] SetDataRate_D(1,3)[OF fields(3)] h[of p2]
    show ?thesis by auto
  next
    case (setattr c0 p1 s2 c p2 s3 p3)
    with h[of p2] show ?thesis by auto
  next
    case (custom c0 p1 s2 c p2 s3 p3 e s5)
    with h[of p2] show ?thesis by auto
  next
    case (saved c0 p1 s2 c p2 s3 p3 x s5)
    with h[of p2] show ?thesis by auto
  qed
qed

lemma configure_hard_exact:
  assumes "CRTSCTS K = None" and "HARD K \<noteq> 0"
    and "f = HARD K \<or> f = (HARD K OR SOFT K)" and "int_fits f" and "\<not> tcgetattr_fails s"
    and "length argv \<noteq> 0" and "arg_flow_control argv = Fixnum f"
    and d: "darwin_prologue K (kern_termios s) (logged Tcgetattr s) = (Inr (c0, p1), s2)"
    and r: "SetDataRate K (arg_data_rate argv) c0 p1 s2 = (Inr (c, p2), s3)"
    and b: "SetDataBits K (arg_data_bits argv) p2 = Inr q1"
      "SetStopBits K (arg_stop_bits argv) q1 = Inr q2"
      "SetParity K (arg_parity K argv q2) q2 = Inr q3"
  shows "sp_set_modem_params_impl K argv s
           = (Inl (IOError ''Hardware flow control not supported''), s3)"
    and "kern_termios s3 = kern_termios s"
    and "os K \<noteq> OS_LINUX \<and> os K \<noteq> OS_DARWIN \<longrightarrow> s3 = logged Tcgetattr s"
proof -
  have "SetFields K argv p2 = Inl (IOError ''Hardware flow control not supported'')"
    using b assms(7) SetFlowControl_hard[OF assms(1-4), of q3]
    by (simp add: SetFields_def)
  with assms(5,6) d r
  show "sp_set_modem_params_impl K argv s
           = (Inl (IOError ''Hardware flow control not supported''), s3)"
    by (simp add: sp_set_modem_params_impl_def tcgetattr_def)
  show "kern_termios s3 = kern_termios s"
    using darwin_prologue_D(1)[OF d] SetDataRate_D(1)[OF r] by simp
  show "os K \<noteq> OS_LINUX \<and> os K \<noteq> OS_DARWIN \<longrightarrow> s3 = logged Tcgetattr s"
    using darwin_prologue_D(3)[OF d] SetDataRate_D(3)[OF r] by auto
qed

text \<open>
  Claim C7, as amended. On a build that does not define \<^verbatim>\<open>CRTSCTS\<close>, with
  \<^verbatim>\<open>tcgetattr\<close> succeeding and a legal flow-control value that has the \<^verbatim>\<open>HARD\<close>
  bit (\<^verbatim>\<open>HARD\<close> or \<^verbatim>\<open>HARD | SOFT\<close>):
  \<^item> \<^verbatim>\<open>sp_set_flow_control_impl\<close> raises "Hardware flow control not supported" and
    nothing but the \<^verbatim>\<open>tcgetattr\<close> has happened;
  \<^item> a configure call in which the blocks before the flow control pass (the rate, the
    data bits, the stop bits and the parity are accepted) raises that same error, with
    the terminal attributes as before the call, and on a platform without custom rates
    with nothing done but the \<^verbatim>\<open>tcgetattr\<close>;
  \<^item> whatever the earlier fields are, a configure call with such a flow-control value
    never succeeds and never reaches \<^verbatim>\<open>tcsetattr\<close>: it raises that error or the error
    of an earlier block, and the terminal attributes are as before the call.
\<close>

theorem hard_flow_control_unsupported:
  assumes "CRTSCTS K = None" and "HARD K \<noteq> 0"
    and "f = HARD K \<or> f = (HARD K OR SOFT K)" and "int_fits f" and "\<not> tcgetattr_fails s"
  shows "sp_set_flow_control_impl K (Fixnum f) s
           = (Inl (IOError ''Hardware flow control not supported''), logged Tcgetattr s)
     \<and> (length argv \<noteq> 0 \<and> arg_flow_control argv = Fixnum f
          \<and> darwin_prologue K (kern_termios s) (logged Tcgetattr s) = (Inr (c0, p1), s2)
          \<and> SetDataRate K (arg_data_rate argv) c0 p1 s2 = (Inr (c, p2), s3)
          \<and> SetDataBits K (arg_data_bits argv) p2 = Inr q1
          \<and> SetStopBits K (arg_stop_bits argv) q1 = Inr q2
          \<and> SetParity K (arg_parity K argv q2) q2 = Inr q3
        \<longrightarrow> sp_set_modem_params_impl K argv s
              = (Inl (IOError ''Hardware flow control not supported''), s3)
          \<and> kern_termios s3 = kern_termios s
          \<and> (os K \<noteq> OS_LINUX \<and> os K \<noteq> OS_DARWIN \<longrightarrow> s3 = logged Tcgetattr s))
     \<and> (length argv \<noteq> 0 \<and> arg_flow_control argv = Fixnum f \<longrightarrow>
          (\<exists>e. fst (sp_set_modem_params_impl K argv s) = Inl e
             \<and> (e = IOError ''Hardware flow control not supported'' \<or> fixnum_error e
                  \<or> rate_error e \<or> framing_error e \<or> serial_ioctl_error e))
          \<and> kern_termios (snd (sp_set_modem_params_impl K argv s)) = kern_termios s
          \<and> (os K \<noteq> OS_LINUX \<and> os K \<noteq> OS_DARWIN
               \<longrightarrow> snd (sp_set_modem_params_impl K argv s) = logged Tcgetattr s))"
proof (intro conjI impI)
  show "sp_set_flow_control_impl K (Fixnum f) s
           = (Inl (IOError ''Hardware flow control not supported''), logged Tcgetattr s)"
    by (rule sp_set_flow_control_impl_hard[OF assms])
next
  assume h: "length argv \<noteq> 0 \<and> arg_flow_control argv = Fixnum f
          \<and> darwin_prologue K (kern_termios s) (logged Tcgetattr s) = (Inr (c0, p1), s2)
          \<and> SetDataRate K (arg_data_rate argv) c0 p1 s2 = (Inr (c, p2), s3)
          \<and> SetDataBits K (arg_data_bits argv) p2 = Inr q1
          \<and> SetStopBits K (arg_stop_bits argv) q1 = Inr q2
          \<and> SetParity K (arg_parity K argv q2) q2 = Inr q3"
  then have e: "length argv \<noteq> 0" "arg_flow_control argv = Fixnum f"
    "darwin_prologue K (kern_termios s) (logged Tcgetattr s) = (Inr (c0, p1), s2)"
    "SetDataRate K (arg_data_rate argv) c0 p1 s2 = (Inr (c, p2), s3)"
    "SetDataBits K (arg_data_bits argv) p2 = Inr q1"
    "SetStopBits K (arg_stop_bits argv) q1 = Inr q2"
    "SetParity K (arg_parity K argv q2) q2 = Inr q3"
    by simp_all
  note x = configure_hard_exact[OF assms e]
  show "sp_set_modem_params_impl K argv s
          = (Inl (IOError ''Hardware flow control not supported''), s3)" by (rule x(1))
  show "kern_termios s3 = kern_termios s" by (rule x(2))
  assume "os K \<noteq> OS_LINUX \<and> os K \<noteq> OS_DARWIN"
  with x(3) show "s3 = logged Tcgetattr s" by simp
next
  assume h: "length argv \<noteq> 0 \<and> arg_flow_control argv = Fixnum f"
  then have e: "length argv \<noteq> 0" "arg_flow_control argv = Fixnum f" by simp_all
  from configure_hard[OF assms e] obtain e' s' where
    x: "sp_set_modem_params_impl K argv s = (Inl e', s')"
      "e' = IOError ''Hardware flow control not supported'' \<or> fixnum_error e'
         \<or> rate_error e' \<or> framing_error e' \<or> serial_ioctl_error e'"
      "kern_termios s' = kern_termios s"
      "os K \<noteq> OS_LINUX \<and> os K \<noteq> OS_DARWIN \<longrightarrow> s' = logged Tcgetattr s"
    by blast
  show "\<exists>e. fst (sp_set_modem_params_impl K argv s) = Inl e
             \<and> (e = IOError ''Hardware flow control not supported'' \<or> fixnum_error e
                  \<or> rate_error e \<or> framing_error e \<or> serial_ioctl_error e)"
    using x(1,2) by simp
  show "kern_termios (snd (sp_set_modem_params_impl K argv s)) = kern_termios s"
    using x(1,3) by simp
  assume "os K \<noteq> OS_LINUX \<and> os K \<noteq> OS_DARWIN"
  with x(1,4) show "snd (sp_set_modem_params_impl K argv s) = logged Tcgetattr s" by simp
qed

theorem hard_flow_control_unsupported_witness:
  "sp_set_flow_control_impl no_crtscts_build (Fixnum 2) port_9600_8N1
     = (Inl (IOError ''Hardware flow control not supported''), logged Tcgetattr port_9600_8N1)
   \<and> darwin_prologue no_crtscts_build (kern_termios port_9600_8N1)
        (logged Tcgetattr port_9600_8N1)
     = (Inr (0, kern_termios port_9600_8N1), logged Tcgetattr port_9600_8N1)
   \<and> SetDataRate no_crtscts_build (Fixnum 9600) 0 (kern_termios port_9600_8N1)
        (logged Tcgetattr port_9600_8N1)
     = (Inr (0, kern_termios port_9600_8N1), logged Tcgetattr port_9600_8N1)
   \<and> SetDataBits no_crtscts_build (Fixnum 8) (kern_termios port_9600_8N1)
     = Inr (kern_termios port_9600_8N1)
   \<and> SetStopBits no_crtscts_build (Fixnum 1) (kern_termios port_9600_8N1)
     = Inr (kern_termios port_9600_8N1)
   \<and> SetParity no_crtscts_build (Fixnum 0) (kern_termios port_9600_8N1)
     = Inr (kern_termios port_9600_8N1)
   \<and> sp_set_modem_params_impl no_crtscts_build
        [Fixnum 9600, Fixnum 8, Fixnum 1, Fixnum 0, Fixnum 2] port_9600_8N1
     = (Inl (IOError ''Hardware flow control not supported''), logged Tcgetattr port_9600_8N1)
   \<and> kern_termios (logged Tcgetattr port_9600_8N1) = kern_termios port_9600_8N1"
proof -
  let ?argv = "[Fixnum 9600, Fixnum 8, Fixnum 1, Fixnum 0, Fixnum 2]"
  let ?K = no_crtscts_build
  let ?s = port_9600_8N1
  let ?p = "kern_termios port_9600_8N1"
  have a: "CRTSCTS ?K = None" "HARD ?K \<noteq> 0"
    "(2::int) = HARD ?K \<or> 2 = (HARD ?K OR SOFT ?K)"
    "int_fits 2" "\<not> tcgetattr_fails ?s"
    by (simp_all add: no_crtscts_build_def linux_build_def int_fits_def port_9600_8N1_def)
  have v: "arg_data_rate ?argv = Fixnum 9600" "arg_data_bits ?argv = Fixnum 8"
    "arg_stop_bits ?argv = Fixnum 1" "arg_parity ?K ?argv ?p = Fixnum 0"
    "arg_flow_control ?argv = Fixnum 2"
    by (simp_all add: arg_data_rate_def arg_data_bits_def arg_stop_bits_def arg_parity_def
        arg_flow_control_def use_hash_def)
  have d: "darwin_prologue ?K ?p (logged Tcgetattr ?s) = (Inr (0, ?p), logged Tcgetattr ?s)"
    by (simp add: darwin_prologue_def no_crtscts_build_def linux_build_def)
  have r: "SetDataRate ?K (Fixnum 9600) 0 ?p (logged Tcgetattr ?s)
      = (Inr (0, ?p), logged Tcgetattr ?s)"
    by (simp add: SetDataRate_def data_rate_switch_def NIL_P_def Check_Type_FIX2INT_def
        Check_Type_FIXNUM_def FIX2INT_def cfsetispeed_def cfsetospeed_def
        no_crtscts_build_def linux_build_def port_9600_8N1_def)
  have b: "SetDataBits ?K (Fixnum 8) ?p = Inr ?p" "SetStopBits ?K (Fixnum 1) ?p = Inr ?p"
    "SetParity ?K (Fixnum 0) ?p = Inr ?p"
    by (simp_all add: SetDataBits_def SetStopBits_def SetParity_def NIL_P_def
        Check_Type_FIX2INT_def Check_Type_FIXNUM_def FIX2INT_def
        no_crtscts_build_def linux_build_def port_9600_8N1_def)
  from hard_flow_control_unsupported[OF a, of ?argv 0 ?p "logged Tcgetattr ?s" 0 ?p
      "logged Tcgetattr ?s" ?p ?p ?p] v d r b
  show ?thesis by simp
qed

text \<open>
  Claim C7 as stated fails. A configure call that asks for \<^verbatim>\<open>HARD\<close> together with
  the character size 9 raises "unknown character size", not the unsupported-capability
  error: the fields are checked in order. The value 6 has the \<^verbatim>\<open>HARD\<close> bit set and is
  rejected as "invalid flow control". When \<^verbatim>\<open>tcgetattr\<close> fails, that failure is
  raised. And were \<^verbatim>\<open>CRTSCTS\<close> undefined on Linux, the call would raise the
  unsupported-capability error after it has cleared an active custom rate in the kernel,
  so not every other setting would be unchanged.
\<close>

theorem hard_flow_control_unsupported_counterexample:
  "fst (sp_set_modem_params_impl no_crtscts_build
          [Fixnum 9600, Fixnum 9, Fixnum 1, Fixnum 0, Fixnum 2] port_9600_8N1)
     = Inl (ArgError ''unknown character size'')
   \<and> (6::int) AND HARD no_crtscts_build \<noteq> 0
   \<and> fst (sp_set_flow_control_impl no_crtscts_build (Fixnum 6) port_9600_8N1)
     = Inl (ArgError ''invalid flow control'')
   \<and> fst (sp_set_flow_control_impl no_crtscts_build (Fixnum 2)
          (port_9600_8N1\<lparr>tcgetattr_fails := True\<rparr>))
     = Inl (SysFail ''tcgetattr'')
   \<and> fst (sp_set_modem_params_impl (linux_build\<lparr>CRTSCTS := None\<rparr>)
          [Fixnum 9600, Fixnum 8, Fixnum 1, Fixnum 0, Fixnum 2] port_custom_250000)
     = Inl (IOError ''Hardware flow control not supported'')
   \<and> kern_serial (snd (sp_set_modem_params_impl (linux_build\<lparr>CRTSCTS := None\<rparr>)
          [Fixnum 9600, Fixnum 8, Fixnum 1, Fixnum 0, Fixnum 2] port_custom_250000))
     = \<lparr>flags = 0, custom_divisor = 0, baud_base = 24000000\<rparr>
   \<and> kern_serial port_custom_250000
     = \<lparr>flags = 0x30, custom_divisor = 96, baud_base = 24000000\<rparr>"
  by (simp add: configure_eval sp_set_flow_control_impl_def no_crtscts_build_def
      linux_build_def port_custom_250000_def port_9600_8N1_def)

subsection \<open>Fields without a value\<close>

lemma or_and_zero:
  fixes a b x :: "'a::len word"
  assumes "a AND x = 0" "b AND x = 0"
  shows "(a OR b) AND x = 0"
  using assms by (simp add: bit.conj_disj_distrib2)

lemma wf_masks:
  assumes "well_formed_build K"
  shows "CSIZE K AND CSTOPB K = 0" "CSIZE K AND PARENB K = 0" "CSIZE K AND PARODD K = 0"
    "CSIZE K AND crtscts_mask K = 0"
    "CSTOPB K AND CSIZE K = 0" "CSTOPB K AND PARENB K = 0" "CSTOPB K AND PARODD K = 0"
    "CSTOPB K AND crtscts_mask K = 0"
    "PARENB K AND CSIZE K = 0" "PARODD K AND CSIZE K = 0"
    "PARENB K AND CSTOPB K = 0" "PARODD K AND CSTOPB K = 0"
    "PARENB K AND PARODD K = 0" "PARENB K AND crtscts_mask K = 0"
    "PARODD K AND crtscts_mask K = 0"
    "crtscts_mask K AND CSIZE K = 0" "crtscts_mask K AND CSTOPB K = 0"
    "crtscts_mask K AND PARENB K = 0" "crtscts_mask K AND PARODD K = 0"
  using assms by (simp_all add: well_formed_build_def and.commute)

lemma SetFields_chain:
  assumes "SetFields K argv p = Inr p'"
  obtains p1 p2 p3 p4 where
    "SetDataBits K (arg_data_bits argv) p = Inr p1"
    "SetStopBits K (arg_stop_bits argv) p1 = Inr p2"
    "SetParity K (arg_parity K argv p2) p2 = Inr p3"
    "SetFlowControl K (arg_flow_control argv) p3 = Inr p4"
    "SetReadTimeout (arg_read_timeout argv) p4 = Inr p'"
  using assms by (auto simp add: SetFields_def split: sum.splits)

lemma arg_parity_nil: "arg_parity K argv q = Qnil \<Longrightarrow> arg_parity K argv q' = Qnil"
  by (auto simp add: arg_parity_def split: if_splits)

lemma SetFields_frame:
  assumes "SetFields K argv p = Inr p'" and wf: "well_formed_build K"
  shows "arg_data_bits argv = Qnil \<Longrightarrow> c_cflag p' AND CSIZE K = c_cflag p AND CSIZE K"
    and "arg_stop_bits argv = Qnil \<Longrightarrow> c_cflag p' AND CSTOPB K = c_cflag p AND CSTOPB K"
    and "arg_parity K argv q = Qnil \<Longrightarrow>
           c_cflag p' AND (PARENB K OR PARODD K) = c_cflag p AND (PARENB K OR PARODD K)"
    and "arg_flow_control argv = Qnil \<Longrightarrow>
           c_cflag p' AND crtscts_mask K = c_cflag p AND crtscts_mask K
           \<and> c_iflag p' = c_iflag p"
proof -
  from assms(1) obtain p1 p2 p3 p4 where
    c: "SetDataBits K (arg_data_bits argv) p = Inr p1"
    "SetStopBits K (arg_stop_bits argv) p1 = Inr p2"
    "SetParity K (arg_parity K argv p2) p2 = Inr p3"
    "SetFlowControl K (arg_flow_control argv) p3 = Inr p4"
    "SetReadTimeout (arg_read_timeout argv) p4 = Inr p'"
    by (rule SetFields_chain)
  note m = wf_masks[OF wf]
  note t = SetReadTimeout_frame[OF c(5)]
  show "c_cflag p' AND CSIZE K = c_cflag p AND CSIZE K" if "arg_data_bits argv = Qnil"
    using that c(1) t SetStopBits_frame[OF c(2) m(1)] SetParity_frame[OF c(3) m(2,3)]
      SetFlowControl_frame[OF c(4) m(4)]
    by (simp add: SetDataBits_nil)
  show "c_cflag p' AND CSTOPB K = c_cflag p AND CSTOPB K" if "arg_stop_bits argv = Qnil"
    using that c(2) t SetDataBits_frame[OF c(1) wf m(5)] SetParity_frame[OF c(3) m(6,7)]
      SetFlowControl_frame[OF c(4) m(8)]
    by (simp add: SetStopBits_nil)
  show "c_cflag p' AND (PARENB K OR PARODD K) = c_cflag p AND (PARENB K OR PARODD K)"
    if "arg_parity K argv q = Qnil"
  proof -
    have n: "arg_parity K argv p2 = Qnil" using that by (rule arg_parity_nil)
    have z: "(PARENB K OR PARODD K) AND CSIZE K = 0" "(PARENB K OR PARODD K) AND CSTOPB K = 0"
      "(PARENB K OR PARODD K) AND crtscts_mask K = 0"
      using m by (simp_all add: or_and_zero)
    show ?thesis
      using n c(3) t SetDataBits_frame[OF c(1) wf z(1)] SetStopBits_frame[OF c(2) z(2)]
        SetFlowControl_frame[OF c(4) z(3)]
      by (simp add: SetParity_nil)
  qed
  show "c_cflag p' AND crtscts_mask K = c_cflag p AND crtscts_mask K \<and> c_iflag p' = c_iflag p"
    if "arg_flow_control argv = Qnil"
    using that c(4) t SetDataBits_frame[OF c(1) wf m(16)] SetStopBits_frame[OF c(2) m(17)]
      SetParity_frame[OF c(3) m(18,19)]
    by (simp add: SetFlowControl_nil)
qed

text \<open>
  Claim C5, as amended. A field among data bits, stop bits, parity and flow control whose
  value is \<^verbatim>\<open>nil\<close> when its block is reached keeps its bits: the character size
  under \<^verbatim>\<open>CSIZE\<close>, the bit \<^verbatim>\<open>CSTOPB\<close>, the bits \<^verbatim>\<open>PARENB\<close> and \<^verbatim>\<open>PARODD\<close>,
  and for the flow control the bits of \<^verbatim>\<open>CRTSCTS\<close> and the whole of \<^verbatim>\<open>c_iflag\<close>.
  The value is \<^verbatim>\<open>nil\<close> in the hash form when the key is absent or maps to
  \<^verbatim>\<open>nil\<close>, and in the positional form when the argument is passed as \<^verbatim>\<open>nil\<close> or,
  for the flow control only, is omitted. (An omitted positional data bits, stop bits or
  parity is given the default 8, 1, or NONE/EVEN, and is not \<^verbatim>\<open>nil\<close>.)
\<close>

theorem nil_fields_untouched:
  assumes "well_formed_build K"
  shows "(arg_data_bits argv = Qnil \<longrightarrow>
            c_cflag (kern_termios (snd (sp_set_modem_params_impl K argv s))) AND CSIZE K
              = c_cflag (kern_termios s) AND CSIZE K)
     \<and> (arg_stop_bits argv = Qnil \<longrightarrow>
            c_cflag (kern_termios (snd (sp_set_modem_params_impl K argv s))) AND CSTOPB K
              = c_cflag (kern_termios s) AND CSTOPB K)
     \<and> (arg_parity K argv (kern_termios s) = Qnil \<longrightarrow>
            c_cflag (kern_termios (snd (sp_set_modem_params_impl K argv s)))
                AND (PARENB K OR PARODD K)
              = c_cflag (kern_termios s) AND (PARENB K OR PARODD K))
     \<and> (arg_flow_control argv = Qnil \<longrightarrow>
            c_cflag (kern_termios (snd (sp_set_modem_params_impl K argv s))) AND crtscts_mask K
              = c_cflag (kern_termios s) AND crtscts_mask K
            \<and> c_iflag (kern_termios (snd (sp_set_modem_params_impl K argv s)))
              = c_iflag (kern_termios s))"
proof -
  obtain r s' where r: "sp_set_modem_params_impl K argv s = (r, s')"
    by (cases "sp_set_modem_params_impl K argv s")
  from configure_termios[OF r] show ?thesis
  proof
    assume "kern_termios s' = kern_termios s"
    with r show ?thesis by simp
  next
    assume "\<exists>p2 p3. c_cflag p2 = c_cflag (kern_termios s)
      \<and> c_iflag p2 = c_iflag (kern_termios s)
      \<and> SetFields K argv p2 = Inr p3 \<and> kern_termios s' = p3"
    then obtain p2 p3 where p: "c_cflag p2 = c_cflag (kern_termios s)"
      "c_iflag p2 = c_iflag (kern_termios s)" "SetFields K argv p2 = Inr p3"
      "kern_termios s' = p3" by blast
    from SetFields_frame(1,2,4)[OF p(3) assms]
      SetFields_frame(3)[OF p(3) assms, of "kern_termios s"] p(1,2,4) r
    show ?thesis by simp
  qed
qed

theorem nil_fields_untouched_witness:
  "well_formed_build linux_build
   \<and> arg_data_bits [Hash [(sBaud, Fixnum 19200)]] = Qnil
   \<and> arg_stop_bits [Hash [(sBaud, Fixnum 19200)]] = Qnil
   \<and> arg_parity linux_build [Hash [(sBaud, Fixnum 19200)]] (kern_termios port_7O2) = Qnil
   \<and> arg_flow_control [Hash [(sBaud, Fixnum 19200)]] = Qnil
   \<and> fst (sp_set_modem_params_impl linux_build [Hash [(sBaud, Fixnum 19200)]] port_7O2)
       = Inr (Hash [(sBaud, Fixnum 19200)])
   \<and> c_cflag (kern_termios
         (snd (sp_set_modem_params_impl linux_build [Hash [(sBaud, Fixnum 19200)]] port_7O2)))
         AND CSIZE linux_build
       = c_cflag (kern_termios port_7O2) AND CSIZE linux_build
   \<and> c_cflag (kern_termios
         (snd (sp_set_modem_params_impl linux_build [Hash [(sBaud, Fixnum 19200)]] port_7O2)))
         AND CSTOPB linux_build
       = c_cflag (kern_termios port_7O2) AND CSTOPB linux_build
   \<and> c_cflag (kern_termios
         (snd (sp_set_modem_params_impl linux_build [Hash [(sBaud, Fixnum 19200)]] port_7O2)))
         AND (PARENB linux_build OR PARODD linux_build)
       = c_cflag (kern_termios port_7O2) AND (PARENB linux_build OR PARODD linux_build)
   \<and> c_iflag (kern_termios
         (snd (sp_set_modem_params_impl linux_build [Hash [(sBaud, Fixnum 19200)]] port_7O2)))
       = c_iflag (kern_termios port_7O2)"
proof -
  let ?argv = "[Hash [(sBaud, Fixnum 19200)]]"
  have a: "arg_data_bits ?argv = Qnil" "arg_stop_bits ?argv = Qnil"
    "arg_parity linux_build ?argv (kern_termios port_7O2) = Qnil"
    "arg_flow_control ?argv = Qnil"
    by (simp_all add: arg_data_bits_def arg_stop_bits_def arg_parity_def arg_flow_control_def
        use_hash_def is_T_HASH_def rb_hash_aref_def)
  have f: "fst (sp_set_modem_params_impl linux_build ?argv port_7O2) = Inr (Hash [(sBaud, Fixnum 19200)])"
    by (simp add: configure_eval linux_build_def port_7O2_def port_9600_8N1_def)
  show ?thesis
    using nil_fields_untouched[OF wf_linux, of ?argv port_7O2] a f wf_linux by simp
qed

text \<open>
  Claim C5 as stated fails in the positional form. The call \<open>configure(9600)\<close> supplies
  neither data bits, nor stop bits, nor parity, and on a port with 7 data bits, two stop
  bits and odd parity it sets 8 data bits, one stop bit and no parity: the omitted
  positional arguments take the defaults of the source.
\<close>

theorem nil_fields_untouched_counterexample:
  "\<not> use_hash [Fixnum 9600] \<and> length [Fixnum 9600] = 1
   \<and> fst (sp_set_modem_params_impl linux_build [Fixnum 9600] port_7O2) = Inr (Fixnum 9600)
   \<and> c_cflag (kern_termios port_7O2) AND CSIZE linux_build = CS7 linux_build
   \<and> c_cflag (kern_termios (snd (sp_set_modem_params_impl linux_build [Fixnum 9600] port_7O2)))
        AND CSIZE linux_build = CS8 linux_build
   \<and> CS7 linux_build \<noteq> CS8 linux_build
   \<and> c_cflag (kern_termios port_7O2) AND CSTOPB linux_build = CSTOPB linux_build
   \<and> c_cflag (kern_termios (snd (sp_set_modem_params_impl linux_build [Fixnum 9600] port_7O2)))
        AND CSTOPB linux_build = 0
   \<and> c_cflag (kern_termios port_7O2) AND PARENB linux_build = PARENB linux_build
   \<and> c_cflag (kern_termios (snd (sp_set_modem_params_impl linux_build [Fixnum 9600] port_7O2)))
        AND PARENB linux_build = 0"
  by (simp add: configure_eval linux_build_def port_7O2_def port_9600_8N1_def)

subsection \<open>The default parity of the positional form\<close>

lemma get_modem_params_impl_fields:
  assumes "fst (get_modem_params_impl K s mp) = Inr mp'"
  shows "data_bits mp' = mp_data_bits K (kern_termios s)"
    and "stop_bits mp' = mp_stop_bits K (kern_termios s)"
    and "parity mp' = mp_parity K (kern_termios s)"
    and "flow_control mp' = mp_flow_control K (NONE K) (kern_termios s)"
    and "read_timeout mp' = mp_read_timeout (kern_termios s)"
  using assms
  by (auto simp add: get_modem_params_impl_def tcgetattr_def
      split: if_splits option.splits prod.splits sum.splits)

lemma SetParity_NONE:
  assumes "well_formed_build K"
  shows "SetParity K (Fixnum (NONE K)) p = Inr (p\<lparr>c_cflag := c_cflag p AND NOT (PARENB K)\<rparr>)"
  using assms
  by (auto simp add: SetParity_def well_formed_build_def NIL_P_def Check_Type_FIX2INT_def
      Check_Type_FIXNUM_def FIX2INT_def int_fits_def)

lemma SetParity_EVEN:
  assumes "well_formed_build K"
  shows "SetParity K (Fixnum (EVEN K)) p
           = Inr (p\<lparr>c_cflag := (c_cflag p OR PARENB K) AND NOT (PARODD K)\<rparr>)"
  using assms
  by (auto simp add: SetParity_def well_formed_build_def NIL_P_def Check_Type_FIX2INT_def
      Check_Type_FIXNUM_def FIX2INT_def int_fits_def)

lemma mp_data_bits_8:
  assumes "well_formed_build K"
  shows "mp_data_bits K p = 8 \<longleftrightarrow> c_cflag p AND CSIZE K = CS8 K"
  using assms by (auto simp add: mp_data_bits_def well_formed_build_def)

lemma and_not_self:
  fixes c x :: "'a::len word"
  shows "(c AND NOT x) AND x = 0"
  by (simp add: and.assoc)

lemma or_and_self:
  fixes c x :: "'a::len word"
  shows "(c OR x) AND x = x"
  by (simp add: bit.conj_disj_distrib2)

lemma SetFields_parity_default:
  assumes f: "SetFields K argv p = Inr p'" and wf: "well_formed_build K"
    and "\<not> use_hash argv" and "length argv < 4"
  shows "mp_parity K p' = (if mp_data_bits K p' = 8 then NONE K else EVEN K)"
proof -
  from f obtain p1 p2 p3 p4 where
    c: "SetDataBits K (arg_data_bits argv) p = Inr p1"
    "SetStopBits K (arg_stop_bits argv) p1 = Inr p2"
    "SetParity K (arg_parity K argv p2) p2 = Inr p3"
    "SetFlowControl K (arg_flow_control argv) p3 = Inr p4"
    "SetReadTimeout (arg_read_timeout argv) p4 = Inr p'"
    by (rule SetFields_chain)
  note m = wf_masks[OF wf]
  have "arg_flow_control argv = Qnil" "arg_read_timeout argv = Qnil"
    using assms(3,4) by (simp_all add: arg_flow_control_def arg_read_timeout_def)
  with c(4,5) have e: "p' = p3"
    by (simp add: SetFlowControl_nil SetReadTimeout_nil)
  have nz: "PARENB K \<noteq> 0" using wf by (simp add: well_formed_build_def)
  show ?thesis
  proof (cases "c_cflag p2 AND CSIZE K = CS8 K")
    case True
    then have "arg_parity K argv p2 = Fixnum (NONE K)"
      using assms(3,4) by (simp add: arg_parity_def)
    with c(3) SetParity_NONE[OF wf, of p2]
    have p3: "p3 = p2\<lparr>c_cflag := c_cflag p2 AND NOT (PARENB K)\<rparr>" by simp
    have "c_cflag p3 AND CSIZE K = CS8 K"
      using True p3 and_not_outside[OF m(2), of "c_cflag p2"] by simp
    moreover have "c_cflag p3 AND PARENB K = 0"
      using p3 by (simp add: and_not_self)
    ultimately show ?thesis
      using e by (simp add: mp_data_bits_8[OF wf] mp_parity_def)
  next
    case False
    then have "arg_parity K argv p2 = Fixnum (EVEN K)"
      using assms(3,4) by (simp add: arg_parity_def)
    with c(3) SetParity_EVEN[OF wf, of p2]
    have p3: "p3 = p2\<lparr>c_cflag := (c_cflag p2 OR PARENB K) AND NOT (PARODD K)\<rparr>" by simp
    have "c_cflag p3 AND CSIZE K = c_cflag p2 AND CSIZE K"
      using p3 and_not_outside[OF m(3), of "c_cflag p2 OR PARENB K"]
        or_outside[OF m(2), of "c_cflag p2"] by simp
    moreover have "c_cflag p3 AND PARENB K = PARENB K"
      using p3 and_not_outside[OF m(13), of "c_cflag p2 OR PARENB K"]
      by (simp add: or_and_self)
    moreover have "c_cflag p3 AND PARODD K = 0"
      using p3 by (simp add: and_not_self)
    ultimately show ?thesis
      using e False nz by (simp add: mp_data_bits_8[OF wf] mp_parity_def)
  qed
qed

text \<open>
  Claim C6, as amended. After a successful positional configure call that supplies data
  bits and omits the parity argument (two or three arguments), inspect reports the parity
  NONE when it reports 8 data bits and EVEN otherwise: the default is taken from the
  character size as the data-bits block of the same call has left it.
\<close>

theorem positional_parity_default:
  assumes "well_formed_build K" and "2 \<le> length argv" and "length argv < 4"
    and "fst (sp_set_modem_params_impl K argv s) = Inr v"
    and "fst (get_modem_params_impl K (snd (sp_set_modem_params_impl K argv s)) mp) = Inr mp'"
  shows "parity mp' = (if data_bits mp' = 8 then NONE K else EVEN K)"
proof -
  obtain s' where r: "sp_set_modem_params_impl K argv s = (Inr v, s')"
    using assms(4) by (cases "sp_set_modem_params_impl K argv s") auto
  have n: "length argv \<noteq> 0" and h: "\<not> use_hash argv"
    using assms(2) by (auto simp add: use_hash_def)
  from configure_success[OF r n] obtain p2 where p: "SetFields K argv p2 = Inr (kern_termios s')"
    by blast
  from SetFields_parity_default[OF p assms(1) h assms(3)]
    get_modem_params_impl_fields(1,3)[OF assms(5)] r
  show ?thesis by simp
qed

theorem positional_parity_default_witness:
  "mp_data_bits linux_build (kern_termios port_7O2) = 7
   \<and> fst (sp_set_modem_params_impl linux_build [Fixnum 9600, Fixnum 8] port_7O2)
       = Inr (Fixnum 9600)
   \<and> fst (get_modem_params_impl linux_build
            (snd (sp_set_modem_params_impl linux_build [Fixnum 9600, Fixnum 8] port_7O2)) mp0)
       = Inr \<lparr>data_rate = 9600, data_bits = 8, stop_bits = 1, parity = NONE linux_build,
              flow_control = 0, read_timeout = 0\<rparr>
   \<and> fst (sp_set_modem_params_impl linux_build [Fixnum 9600, Fixnum 7] port_9600_8N1)
       = Inr (Fixnum 9600)
   \<and> fst (get_modem_params_impl linux_build
            (snd (sp_set_modem_params_impl linux_build [Fixnum 9600, Fixnum 7] port_9600_8N1))
            mp0)
       = Inr \<lparr>data_rate = 9600, data_bits = 7, stop_bits = 1, parity = EVEN linux_build,
              flow_control = 0, read_timeout = 0\<rparr>"
proof -
  have f8: "fst (sp_set_modem_params_impl linux_build [Fixnum 9600, Fixnum 8] port_7O2)
       = Inr (Fixnum 9600)"
    by (simp add: configure_eval linux_build_def port_7O2_def port_9600_8N1_def)
  have g8: "fst (get_modem_params_impl linux_build
            (snd (sp_set_modem_params_impl linux_build [Fixnum 9600, Fixnum 8] port_7O2)) mp0)
       = Inr \<lparr>data_rate = 9600, data_bits = 8, stop_bits = 1,
              parity = mp_parity linux_build (kern_termios
                (snd (sp_set_modem_params_impl linux_build [Fixnum 9600, Fixnum 8] port_7O2))),
              flow_control = 0, read_timeout = 0\<rparr>"
    by (simp add: configure_eval inspect_eval linux_build_def port_7O2_def port_9600_8N1_def
        mp0_def)
  have f7: "fst (sp_set_modem_params_impl linux_build [Fixnum 9600, Fixnum 7] port_9600_8N1)
       = Inr (Fixnum 9600)"
    by (simp add: configure_eval linux_build_def port_9600_8N1_def)
  have g7: "fst (get_modem_params_impl linux_build
            (snd (sp_set_modem_params_impl linux_build [Fixnum 9600, Fixnum 7] port_9600_8N1))
            mp0)
       = Inr \<lparr>data_rate = 9600, data_bits = 7, stop_bits = 1,
              parity = mp_parity linux_build (kern_termios
                (snd (sp_set_modem_params_impl linux_build [Fixnum 9600, Fixnum 7]
                        port_9600_8N1))),
              flow_control = 0, read_timeout = 0\<rparr>"
    by (simp add: configure_eval inspect_eval linux_build_def port_9600_8N1_def mp0_def)
  have b: "mp_data_bits linux_build (kern_termios port_7O2) = 7"
    by (simp add: mp_data_bits_def linux_build_def port_7O2_def port_9600_8N1_def)
  from positional_parity_default[OF wf_linux _ _ f8 g8]
    positional_parity_default[OF wf_linux _ _ f7 g7] f8 g8 f7 g7 b
  show ?thesis by simp
qed

text \<open>
  Claim C6 as stated fails when the parity is passed as \<^verbatim>\<open>nil\<close>: with four
  arguments the default is not computed and \<^verbatim>\<open>NIL_P(_parity)\<close> skips the parity
  block. The call \<open>configure(9600, 7, 1, nil)\<close> on a port with 8 data bits and no
  parity succeeds and leaves 7 data bits with the parity NONE, where the claim gives
  EVEN.
\<close>

theorem positional_parity_default_counterexample:
  "\<not> use_hash [Fixnum 9600, Fixnum 7, Fixnum 1, Qnil]
   \<and> fst (sp_set_modem_params_impl linux_build [Fixnum 9600, Fixnum 7, Fixnum 1, Qnil]
          port_9600_8N1)
     = Inr (Fixnum 9600)
   \<and> fst (get_modem_params_impl linux_build
          (snd (sp_set_modem_params_impl linux_build [Fixnum 9600, Fixnum 7, Fixnum 1, Qnil]
                  port_9600_8N1)) mp0)
     = Inr \<lparr>data_rate = 9600, data_bits = 7, stop_bits = 1, parity = NONE linux_build,
            flow_control = 0, read_timeout = 0\<rparr>
   \<and> NONE linux_build \<noteq> EVEN linux_build"
  by (simp add: configure_eval inspect_eval linux_build_def port_9600_8N1_def mp0_def)

subsection \<open>Inspect\<close>

text \<open>
  Claim C8. The Linux \<^verbatim>\<open>get_custom_baud_rate\<close> has no \<^verbatim>\<open>rb_raise\<close>: its model
  returns an \<^verbatim>\<open>int\<close>, never an error. It returns 0 when \<^verbatim>\<open>TIOCGSERIAL\<close> fails,
  when \<^verbatim>\<open>flags & ASYNC_SPD_CUST\<close> is zero, or when the divisor is not positive, and
  \<^verbatim>\<open>baud_base / custom_divisor\<close> otherwise. So on Linux, when \<^verbatim>\<open>tcgetattr\<close>
  succeeds, the speed is none of the constants of the \<^verbatim>\<open>switch\<close> and one of the three
  conditions holds, inspect returns normally with \<^verbatim>\<open>data_rate\<close> 0.
\<close>

theorem get_custom_baud_rate_linux_total:
  "(tiocgserial_fails s \<or> flags (kern_serial s) AND ASYNC_SPD_CUST K = 0
      \<or> custom_divisor (kern_serial s) \<le> 0
      \<longrightarrow> fst (get_custom_baud_rate_linux K s) = 0)
   \<and> (\<not> tiocgserial_fails s \<and> flags (kern_serial s) AND ASYNC_SPD_CUST K \<noteq> 0
        \<and> 0 < custom_divisor (kern_serial s)
      \<longrightarrow> fst (get_custom_baud_rate_linux K s)
            = c_div (baud_base (kern_serial s)) (custom_divisor (kern_serial s)))
   \<and> (os K = OS_LINUX \<and> \<not> tcgetattr_fails s
        \<and> ospeed_switch K (cfgetospeed (kern_termios s)) = None
        \<and> (tiocgserial_fails s \<or> flags (kern_serial s) AND ASYNC_SPD_CUST K = 0
             \<or> custom_divisor (kern_serial s) \<le> 0)
      \<longrightarrow> (\<exists>mp'. fst (get_modem_params_impl K s mp) = Inr mp' \<and> data_rate mp' = 0))"
proof -
  have a: "fst (get_custom_baud_rate_linux K s) = 0"
    if "tiocgserial_fails s \<or> flags (kern_serial s) AND ASYNC_SPD_CUST K = 0
        \<or> custom_divisor (kern_serial s) \<le> 0" for s
    using that by (auto simp add: get_custom_baud_rate_linux_def ioctl_TIOCGSERIAL_def)
  have b: "fst (get_custom_baud_rate_linux K s)
            = c_div (baud_base (kern_serial s)) (custom_divisor (kern_serial s))"
    if "\<not> tiocgserial_fails s" "flags (kern_serial s) AND ASYNC_SPD_CUST K \<noteq> 0"
       "0 < custom_divisor (kern_serial s)"
    using that by (simp add: get_custom_baud_rate_linux_def ioctl_TIOCGSERIAL_def)
  have c: "\<exists>mp'. fst (get_modem_params_impl K s mp) = Inr mp' \<and> data_rate mp' = 0"
    if "os K = OS_LINUX" "\<not> tcgetattr_fails s"
       "ospeed_switch K (cfgetospeed (kern_termios s)) = None"
       "tiocgserial_fails s \<or> flags (kern_serial s) AND ASYNC_SPD_CUST K = 0
        \<or> custom_divisor (kern_serial s) \<le> 0"
  proof -
    have "fst (get_custom_baud_rate_linux K (logged Tcgetattr s)) = 0"
      using that(4) by (intro a) simp
    with that(1-3) show ?thesis
      by (auto simp add: get_modem_params_impl_def tcgetattr_def split: prod.splits)
  qed
  from a[of s] b c show ?thesis by blast
qed

theorem get_custom_baud_rate_linux_total_witness:
  "fst (get_custom_baud_rate_linux linux_build port_9600_8N1) = 0
   \<and> fst (get_custom_baud_rate_linux linux_build port_custom_250000) = 250000
   \<and> ospeed_switch linux_build (cfgetospeed (kern_termios port_B0)) = None
   \<and> (\<exists>mp'. fst (get_modem_params_impl linux_build port_B0 mp0) = Inr mp' \<and> data_rate mp' = 0)"
proof -
  have p: "flags (kern_serial port_9600_8N1) AND ASYNC_SPD_CUST linux_build = 0"
    by (simp add: port_9600_8N1_def linux_build_def)
  have q: "\<not> tiocgserial_fails port_custom_250000
      \<and> flags (kern_serial port_custom_250000) AND ASYNC_SPD_CUST linux_build \<noteq> 0
      \<and> 0 < custom_divisor (kern_serial port_custom_250000)"
    by (simp add: port_custom_250000_def port_9600_8N1_def linux_build_def)
  have d: "c_div (baud_base (kern_serial port_custom_250000))
      (custom_divisor (kern_serial port_custom_250000)) = 250000"
    by (simp add: port_custom_250000_def port_9600_8N1_def c_div_def)
  have r: "os linux_build = OS_LINUX \<and> \<not> tcgetattr_fails port_B0
      \<and> ospeed_switch linux_build (cfgetospeed (kern_termios port_B0)) = None
      \<and> flags (kern_serial port_B0) AND ASYNC_SPD_CUST linux_build = 0"
    by (simp add: port_B0_def port_9600_8N1_def linux_build_def ospeed_switch_def
        cfgetospeed_def)
  from get_custom_baud_rate_linux_total[of port_9600_8N1 linux_build mp0] p
    get_custom_baud_rate_linux_total[of port_custom_250000 linux_build mp0] q d
    get_custom_baud_rate_linux_total[of port_B0 linux_build mp0] r
  show ?thesis by simp
qed

text \<open>
  Claim C9. When the bits of \<^verbatim>\<open>c_cflag\<close> under \<^verbatim>\<open>CSIZE\<close> are none of
  \<^verbatim>\<open>CS5\<close>, \<^verbatim>\<open>CS6\<close>, \<^verbatim>\<open>CS7\<close>, \<^verbatim>\<open>CS8\<close>, inspect reports 0 data bits; when they
  are one of the four (distinct) constants, it reports 5, 6, 7 or 8 accordingly. On Linux
  and the BSDs the four constants exhaust the two-bit field, so the first case needs a
  platform with a wider field.
\<close>

theorem inspect_data_bits:
  assumes "fst (get_modem_params_impl K s mp) = Inr mp'"
  shows "(c_cflag (kern_termios s) AND CSIZE K \<notin> {CS5 K, CS6 K, CS7 K, CS8 K}
            \<longrightarrow> data_bits mp' = 0)
     \<and> (distinct [CS5 K, CS6 K, CS7 K, CS8 K] \<longrightarrow>
          (c_cflag (kern_termios s) AND CSIZE K = CS5 K \<longrightarrow> data_bits mp' = 5)
        \<and> (c_cflag (kern_termios s) AND CSIZE K = CS6 K \<longrightarrow> data_bits mp' = 6)
        \<and> (c_cflag (kern_termios s) AND CSIZE K = CS7 K \<longrightarrow> data_bits mp' = 7)
        \<and> (c_cflag (kern_termios s) AND CSIZE K = CS8 K \<longrightarrow> data_bits mp' = 8))"
  using get_modem_params_impl_fields(1)[OF assms]
  by (auto simp add: mp_data_bits_def)

theorem inspect_data_bits_witness:
  "c_cflag (kern_termios port_odd_size) AND CSIZE wide_csize_build
      \<notin> {CS5 wide_csize_build, CS6 wide_csize_build, CS7 wide_csize_build,
           CS8 wide_csize_build}
   \<and> fst (get_modem_params_impl wide_csize_build port_odd_size mp0)
       = Inr \<lparr>data_rate = 9600, data_bits = 0, stop_bits = 2, parity = 0, flow_control = 0,
              read_timeout = 0\<rparr>
   \<and> distinct [CS5 linux_build, CS6 linux_build, CS7 linux_build, CS8 linux_build]
   \<and> c_cflag (kern_termios port_7O2) AND CSIZE linux_build = CS7 linux_build
   \<and> fst (get_modem_params_impl linux_build port_7O2 mp0)
       = Inr \<lparr>data_rate = 9600, data_bits = 7, stop_bits = 2, parity = 2, flow_control = 0,
              read_timeout = 0\<rparr>"
proof -
  have a: "c_cflag (kern_termios port_odd_size) AND CSIZE wide_csize_build
      \<notin> {CS5 wide_csize_build, CS6 wide_csize_build, CS7 wide_csize_build,
           CS8 wide_csize_build}"
    by (simp add: port_odd_size_def port_9600_8N1_def wide_csize_build_def linux_build_def)
  have b: "fst (get_modem_params_impl wide_csize_build port_odd_size mp0)
       = Inr \<lparr>data_rate = 9600,
              data_bits = data_bits (projr (fst (get_modem_params_impl wide_csize_build
                  port_odd_size mp0))),
              stop_bits = 2, parity = 0, flow_control = 0, read_timeout = 0\<rparr>"
    by (simp add: inspect_eval tcgetattr_def cfgetospeed_def port_odd_size_def
        port_9600_8N1_def wide_csize_build_def linux_build_def mp0_def)
  have c: "distinct [CS5 linux_build, CS6 linux_build, CS7 linux_build, CS8 linux_build]
      \<and> c_cflag (kern_termios port_7O2) AND CSIZE linux_build = CS7 linux_build"
    by (simp add: port_7O2_def port_9600_8N1_def linux_build_def)
  have d: "fst (get_modem_params_impl linux_build port_7O2 mp0)
       = Inr \<lparr>data_rate = 9600,
              data_bits = data_bits (projr (fst (get_modem_params_impl linux_build
                  port_7O2 mp0))),
              stop_bits = 2, parity = 2, flow_control = 0, read_timeout = 0\<rparr>"
    by (simp add: inspect_eval tcgetattr_def cfgetospeed_def port_7O2_def
        port_9600_8N1_def linux_build_def mp0_def)
  from inspect_data_bits[OF b] inspect_data_bits[OF d] a b c d
  show ?thesis by simp
qed

subsection \<open>A standard rate after a custom rate\<close>

text \<open>On Linux a standard rate clears the flag and the divisor, and inspect then reports
  the standard rate.\<close>

lemma linux_standard_rate_clears_custom:
  "kern_serial (snd (sp_set_modem_params_impl linux_build [Fixnum 9600] port_custom_250000))
     = \<lparr>flags = 0, custom_divisor = 0, baud_base = 24000000\<rparr>
   \<and> data_rate (projr (fst (get_modem_params_impl linux_build
        (snd (sp_set_modem_params_impl linux_build [Fixnum 9600] port_custom_250000)) mp0)))
     = 9600"
  by (simp add: configure_eval inspect_eval linux_build_def port_custom_250000_def
      port_9600_8N1_def mp0_def)

text \<open>
  Claim C4. A configure call with a standard rate is claimed to clear an active custom
  rate, on Darwin by resetting the cached rate to 0 and not applying it again. On Darwin
  the source reads the cached rate into \<^verbatim>\<open>custom_baud_rate\<close> before it clears the
  cache, and a standard rate does not reset that variable: after \<^verbatim>\<open>tcsetattr\<close> the
  old custom rate is applied again with \<^verbatim>\<open>IOSSIOSPEED\<close> and cached again. Here
  \<open>configure(9600)\<close> on a port with the custom rate 250000.
\<close>

theorem darwin_standard_rate_reapplies_custom:
  "sp_set_modem_params_impl darwin_build [Fixnum 9600] darwin_port_250000
     = (Inr (Fixnum 9600),
        darwin_port_250000
          \<lparr>kern_termios := \<lparr>c_iflag = 0, c_oflag = 0, c_cflag = 0xAB00, c_lflag = 0,
              c_cc_VTIME = 0, c_cc_VMIN = 1, c_ispeed = 9600, c_ospeed = 9600\<rparr>,
           custom_baud := Fixnum 250000,
           trace := [Tcgetattr,
              Tcsetattr \<lparr>c_iflag = 0, c_oflag = 0, c_cflag = 0xAB00, c_lflag = 0,
                c_cc_VTIME = 0, c_cc_VMIN = 1, c_ispeed = 9600, c_ospeed = 9600\<rparr>,
              Ioctl_IOSSIOSPEED 250000]\<rparr>)"
  by (simp add: configure_eval darwin_build_def darwin_port_250000_def)

subsection \<open>Configure without arguments\<close>

text \<open>
  Claim C10. Called with no argument, \<^verbatim>\<open>sp_set_modem_params_impl\<close> returns the
  receiver and the port is exactly as before: no attribute, no serial information and no
  cached rate has changed, and the list of system calls made is the same, so there was
  no \<^verbatim>\<open>tcgetattr\<close>, \<^verbatim>\<open>tcsetattr\<close> or \<^verbatim>\<open>ioctl\<close>.
\<close>

theorem sp_set_modem_params_impl_no_args:
  "sp_set_modem_params_impl K [] self = (Inr Self, self)"
  by (simp add: sp_set_modem_params_impl_def)

end
